theory Spec2Isabelle
  imports Complex_Main "HOL-Library.Char_ord" "HOL-Library.List_Lexorder" "HOL-Library.AList"
begin

section \<open>Strings and paths\<close>

text \<open>
  Python strings are modelled as \<^typ>\<open>string\<close>. With \<open>Char_ord\<close> and \<open>List_Lexorder\<close>
  the order on strings is the lexicographic order by character code, which is the order
  Python's \<open>sorted\<close> uses on \<open>str\<close>.
\<close>

definition endswith :: "string \<Rightarrow> string \<Rightarrow> bool" where
  \<comment> \<open>\<open>s.endswith(suf)\<close>\<close>
  "endswith s suf = (suf = drop (length s - length suf) s)"

definition strip4 :: "string \<Rightarrow> string" where
  \<comment> \<open>\<open>filename[:-4]\<close>\<close>
  "strip4 s = take (length s - 4) s"

fun split_sep :: "char \<Rightarrow> string \<Rightarrow> string list" where
  \<comment> \<open>\<open>s.split(c)\<close> for a one-character separator\<close>
  "split_sep c [] = [[]]"
| "split_sep c (x # xs) =
     (if x = c then [] # split_sep c xs
      else (case split_sep c xs of
              [] \<Rightarrow> [[x]]
            | p # ps \<Rightarrow> (x # p) # ps))"

fun join_sep :: "char \<Rightarrow> string list \<Rightarrow> string" where
  \<comment> \<open>\<open>c.join(parts)\<close>, the inverse of \<open>split_sep\<close>\<close>
  "join_sep c [] = []"
| "join_sep c [p] = p"
| "join_sep c (p # q # ps) = p @ c # join_sep c (q # ps)"

definition os_path_join :: "string \<Rightarrow> string \<Rightarrow> string" where
  \<comment> \<open>\<open>os.path.join(a, b)\<close> on POSIX\<close>
  "os_path_join a b =
     (if b \<noteq> [] \<and> hd b = CHR ''/'' then b
      else if a = [] \<or> last a = CHR ''/'' then a @ b
      else a @ ''/'' @ b)"

definition os_path_basename :: "string \<Rightarrow> string" where
  \<comment> \<open>\<open>os.path.basename(p)\<close> on POSIX: what follows the last \<open>/\<close>\<close>
  "os_path_basename p = last (split_sep CHR ''/'' p)"

definition os_path_dirname :: "string \<Rightarrow> string" where
  \<comment> \<open>\<open>os.path.dirname(p)\<close> on POSIX: what precedes the base name, without its final
      slashes unless it consists of slashes only\<close>
  "os_path_dirname p =
     (let head = take (length p - length (os_path_basename p)) p in
      if head \<noteq> [] \<and> \<not> list_all (\<lambda>c. c = CHR ''/'') head
      then rev (dropWhile (\<lambda>c. c = CHR ''/'') (rev head))
      else head)"

section \<open>Errors\<close>

text \<open>
  Every exception that the two scripts raise, or that a library call they make raises,
  is a value of \<open>error\<close>. The constructors carry the data that the message of the
  exception is formatted from.
\<close>

datatype error =
    ValueError_InvalidShape string "nat list"
      \<comment> \<open>\<open>ValueError("Invalid extrinsics matrix shape in {filepath}, expected 4x4, got {shape}")\<close>\<close>
  | ValueError_Insufficient string nat
      \<comment> \<open>\<open>ValueError("Insufficient intrinsics data in {file}, ... got {len(data)}")\<close>\<close>
  | ValueError_EmptyCameras
      \<comment> \<open>\<open>ValueError("Empty cameras data")\<close>\<close>
  | ValueError_Numpy string
      \<comment> \<open>a \<open>ValueError\<close> raised inside numpy\<close>
  | NotImplementedError
  | AssertionError "string option"
  | TypeError string
  | KeyError string
  | LinAlgError string
  | OSError string

section \<open>Arrays\<close>

text \<open>
  A numpy array of dimension at most two. The entries are taken from a field: the
  development treats the arithmetic of \<open>float64\<close> as exact, so rounding is outside the
  model.
\<close>

datatype 'a ndarray = Arr0 'a | Arr1 "'a list" | Arr2 "'a list list"

definition ncols :: "'a list list \<Rightarrow> nat" where
  "ncols rows = (case rows of [] \<Rightarrow> 0 | r # _ \<Rightarrow> length r)"

fun shape :: "'a ndarray \<Rightarrow> nat list" where
  "shape (Arr0 x) = []"
| "shape (Arr1 xs) = [length xs]"
| "shape (Arr2 rows) = [length rows, ncols rows]"

definition rectangular :: "'a list list \<Rightarrow> bool" where
  "rectangular rows = list_all (\<lambda>r. length r = ncols rows) rows"

definition is_4x4 :: "'a ndarray \<Rightarrow> bool" where
  \<comment> \<open>a two-dimensional array of four rows of four entries\<close>
  "is_4x4 m = (case m of Arr2 rows \<Rightarrow> length rows = 4 \<and> list_all (\<lambda>r. length r = 4) rows
               | _ \<Rightarrow> False)"

definition loadtxt_rows :: "'a list list \<Rightarrow> error + 'a ndarray" where
  \<comment> \<open>What \<open>np.loadtxt\<close> returns for a text file whose lines hold the given numbers:
      blank lines are skipped, lines of different lengths are an error, and the result
      is squeezed (one value gives a 0-d array, one row or one column a 1-d array).\<close>
  "loadtxt_rows lines =
     (let rows = filter (\<lambda>r. r \<noteq> []) lines in
      case rows of
        [] \<Rightarrow> Inr (Arr1 [])
      | r # rs \<Rightarrow>
          if \<not> list_all (\<lambda>r'. length r' = length r) rs
            then Inl (ValueError_Numpy ''the number of columns changed'')
          else if rs = [] then (if length r = 1 then Inr (Arr0 (hd r)) else Inr (Arr1 r))
          else if length r = 1 then Inr (Arr1 (map hd rows))
          else Inr (Arr2 rows))"

subsection \<open>Matrix product and inverse\<close>

definition dot :: "'a::semiring_0 list \<Rightarrow> 'a list \<Rightarrow> 'a" where
  "dot xs ys = (\<Sum>k\<leftarrow>[0..<length ys]. xs ! k * ys ! k)"

definition column :: "'a list list \<Rightarrow> nat \<Rightarrow> 'a list" where
  "column rows j = map (\<lambda>r. r ! j) rows"

definition matmul_rows :: "'a::semiring_0 list list \<Rightarrow> 'a list list \<Rightarrow> 'a list list" where
  "matmul_rows a b = map (\<lambda>r. map (\<lambda>j. dot r (column b j)) [0..<ncols b]) a"

fun np_matmul :: "'a::semiring_0 ndarray \<Rightarrow> 'a ndarray \<Rightarrow> error + 'a ndarray" where
  \<comment> \<open>\<open>np.matmul\<close>: a 1-d operand is a row on the left and a column on the right\<close>
  "np_matmul (Arr2 a) (Arr2 b) =
     (if ncols a = length b then Inr (Arr2 (matmul_rows a b))
      else Inl (ValueError_Numpy ''matmul: mismatch in core dimension''))"
| "np_matmul (Arr1 x) (Arr2 b) =
     (if length x = length b then Inr (Arr1 (map (\<lambda>j. dot x (column b j)) [0..<ncols b]))
      else Inl (ValueError_Numpy ''matmul: mismatch in core dimension''))"
| "np_matmul (Arr2 a) (Arr1 y) =
     (if ncols a = length y then Inr (Arr1 (map (\<lambda>r. dot r y) a))
      else Inl (ValueError_Numpy ''matmul: mismatch in core dimension''))"
| "np_matmul (Arr1 x) (Arr1 y) =
     (if length x = length y then Inr (Arr0 (dot x y))
      else Inl (ValueError_Numpy ''matmul: mismatch in core dimension''))"
| "np_matmul (Arr0 x) _ = Inl (ValueError_Numpy ''matmul: operand does not have enough dimensions'')"
| "np_matmul _ (Arr0 y) = Inl (ValueError_Numpy ''matmul: operand does not have enough dimensions'')"

definition del_at :: "nat \<Rightarrow> 'a list \<Rightarrow> 'a list" where
  "del_at j r = take j r @ drop (Suc j) r"

function det :: "'a::comm_ring_1 list list \<Rightarrow> 'a" where
  \<comment> \<open>the determinant of a square matrix, expanded along its first row\<close>
  "det [] = 1"
| "det (r # rs) = (\<Sum>j\<leftarrow>[0..<length r]. (- 1) ^ j * r ! j * det (map (del_at j) rs))"
  by pat_completeness auto
termination
  by (relation "measure length") auto

definition cofactor :: "'a::comm_ring_1 list list \<Rightarrow> nat \<Rightarrow> nat \<Rightarrow> 'a" where
  "cofactor m i j = (- 1) ^ (i + j) * det (map (del_at j) (del_at i m))"

definition inverse_matrix :: "'a::field list list \<Rightarrow> 'a list list" where
  \<comment> \<open>the transposed matrix of cofactors, divided by the determinant\<close>
  "inverse_matrix m =
     map (\<lambda>i. map (\<lambda>j. cofactor m j i / det m) [0..<length m]) [0..<length m]"

text \<open>
  \<open>np.linalg.inv\<close> factorises its argument in \<open>float64\<close> and raises \<open>LinAlgError\<close> only
  when it meets a pivot that is exactly zero. For a matrix that has an inverse the model
  returns that inverse, so rounding is left out. For a square matrix without an inverse the
  routine either raises or, when rounding hides the zero pivot, returns some matrix of the
  same shape: which of the two, and which matrix, is not fixed by the code, so it is a
  parameter of the model, of type \<open>'a lapack\<close>: \<open>None\<close> stands for the exception,
  \<open>Some g\<close> for the returned matrix with the entries \<open>g i j\<close>.
\<close>

type_synonym 'a lapack = "'a list list \<Rightarrow> (nat \<Rightarrow> nat \<Rightarrow> 'a) option"

fun np_linalg_inv :: "'a::field lapack \<Rightarrow> 'a ndarray \<Rightarrow> error + 'a ndarray" where
  "np_linalg_inv lapack (Arr2 a) =
     (if length a \<noteq> ncols a then Inl (LinAlgError ''Last 2 dimensions of the array must be square'')
      else if det a = 0 then
        (case lapack a of
           None \<Rightarrow> Inl (LinAlgError ''Singular matrix'')
         | Some g \<Rightarrow> Inr (Arr2 (map (\<lambda>i. map (\<lambda>j. g i j) [0..<length a]) [0..<length a])))
      else Inr (Arr2 (inverse_matrix a)))"
| "np_linalg_inv lapack _ = Inl (LinAlgError ''Array must be at least two-dimensional'')"

definition eye :: "nat \<Rightarrow> 'a::zero_neq_one list list" where
  \<comment> \<open>\<open>np.eye(n)\<close>\<close>
  "eye n = map (\<lambda>i. map (\<lambda>j. if i = j then 1 else 0) [0..<n]) [0..<n]"

section \<open>Data model\<close>

record 'a intrinsics =
  fx :: 'a
  fy :: 'a
  cx :: 'a
  cy :: 'a
  width :: int
  height :: int

text \<open>
  The keys \<open>fl_x\<close>, \<open>fl_y\<close>, \<open>cx\<close>, \<open>cy\<close>, \<open>w\<close>, \<open>h\<close> that a frame carries in multi-camera
  mode; \<open>c_x\<close>, \<open>c_y\<close>, \<open>im_w\<close>, \<open>im_h\<close> stand for the keys \<open>cx\<close>, \<open>cy\<close>, \<open>w\<close>, \<open>h\<close>.
\<close>

record 'a frame_intrinsics =
  fl_x :: 'a
  fl_y :: 'a
  c_x :: 'a
  c_y :: 'a
  im_w :: int
  im_h :: int

record 'a frame =
  file_path :: string
  transform_matrix :: "'a ndarray"  \<comment> \<open>\<open>transform_matrix.tolist()\<close>: the nested list of the array\<close>
  per_frame :: "'a frame_intrinsics option"

text \<open>The fields \<open>fl_x\<close>, \<open>fl_y\<close>, \<open>w\<close>, \<open>h\<close> at the top of the flat converter's document.\<close>

record 'a shared_intrinsics =
  shared_fl_x :: 'a
  shared_fl_y :: 'a
  shared_w :: int
  shared_h :: int

record 'a transforms =
  shared :: "'a shared_intrinsics option"
  frames :: "'a frame list"

text \<open>One record of \<open>cameras.json\<close>.\<close>

record 'a camera =
  cam_img_name :: string
  cam_fx :: 'a
  cam_fy :: 'a
  cam_width :: int
  cam_height :: int
  cam_rotation :: "'a list list"
  cam_position :: "'a list"

subsection \<open>The file system\<close>

datatype 'a node =
    Directory "string list"       \<comment> \<open>the names \<open>os.listdir\<close> returns, in its order\<close>
  | NumericText "'a list list"    \<comment> \<open>a text file of whitespace-separated numbers, by line\<close>
  | CamerasJson "'a camera list"  \<comment> \<open>a \<open>cameras.json\<close>\<close>
  | TransformsJson "'a transforms"  \<comment> \<open>a document written by \<open>json.dump\<close>\<close>
  | OtherFile

type_synonym 'a fs = "string \<Rightarrow> 'a node option"

definition os_path_exists :: "'a fs \<Rightarrow> string \<Rightarrow> bool" where
  "os_path_exists fs p = (fs p \<noteq> None)"

definition os_listdir :: "'a fs \<Rightarrow> string \<Rightarrow> error + string list" where
  "os_listdir fs d =
     (case fs d of Some (Directory names) \<Rightarrow> Inr names | _ \<Rightarrow> Inl (OSError d))"

definition np_loadtxt :: "'a fs \<Rightarrow> string \<Rightarrow> error + 'a ndarray" where
  "np_loadtxt fs p =
     (case fs p of
        Some (NumericText lines) \<Rightarrow> loadtxt_rows lines
      | Some (Directory _) \<Rightarrow> Inl (OSError p)
      | Some _ \<Rightarrow> Inl (ValueError_Numpy ''could not convert string to float64'')
      | None \<Rightarrow> Inl (OSError p))"

definition os_path_isdir :: "'a fs \<Rightarrow> string \<Rightarrow> bool" where
  "os_path_isdir fs p = (case fs p of Some (Directory _) \<Rightarrow> True | _ \<Rightarrow> False)"

definition can_open_for_writing :: "'a fs \<Rightarrow> string \<Rightarrow> bool" where
  \<comment> \<open>\<open>open(p, 'w')\<close> raises for the empty path, for a path that ends in a slash or names
      a directory, and when the directory of the path is not there; a path without a
      directory part is in the working directory. Failures that do not depend on the
      paths (permissions, a full disk) are outside the model.\<close>
  "can_open_for_writing fs p =
     (p \<noteq> [] \<and> os_path_basename p \<noteq> [] \<and> \<not> os_path_isdir fs p \<and>
      (let parent = os_path_dirname p in
       parent = [] \<or> list_all (\<lambda>c. c = CHR ''/'') parent \<or> os_path_isdir fs parent))"

definition add_entry :: "'a fs \<Rightarrow> string \<Rightarrow> 'a fs" where
  \<comment> \<open>a new file appears in the listing of its directory\<close>
  "add_entry fs p =
     (case fs (os_path_dirname p) of
        Some (Directory names) \<Rightarrow>
          if os_path_basename p \<in> set names then fs
          else fs(os_path_dirname p \<mapsto> Directory (names @ [os_path_basename p]))
      | _ \<Rightarrow> fs)"

definition json_dump :: "'a fs \<Rightarrow> string \<Rightarrow> 'a transforms \<Rightarrow> error + 'a fs" where
  \<comment> \<open>\<open>with open(output_path, 'w') as f: json.dump(transforms, f, indent=2)\<close>\<close>
  "json_dump fs output_path doc =
     (if can_open_for_writing fs output_path
      then Inr ((add_entry fs output_path)(output_path \<mapsto> TransformsJson doc))
      else Inl (OSError output_path))"

subsection \<open>Log records\<close>

datatype level = INFO | WARNING | ERROR | PRINT

text \<open>One constructor for each message of the scripts, with the values it formats.\<close>

datatype 'a message =
    Scanning_extrinsics_directory string
  | No_extrinsics_files_found string
  | Found_potential_files nat
  | Loaded_extrinsics_for string
  | Successfully_loaded_files nat nat
  | Intrinsics_file_not_found string
  | Loaded_intrinsics_from string 'a 'a 'a 'a
  | Loading_extrinsics_from string
  | No_extrinsics_data_loaded
  | Multi_camera_loading_intrinsics string
  | Detected_cameras "string list"
  | Loading_intrinsics_for_camera string
  | Successfully_loaded_intrinsics nat
  | Applying_camera_alignment string
  | Could_not_load_first_camera_pose string
  | No_front_camera_found
  | Saving_transforms_to string
  | Successfully_converted nat string
  | Multi_camera_summary nat
  | Camera_summary string int int 'a 'a
  | Converted_cameras nat string string
  | Image_resolution int int
  | Focal_lengths 'a 'a

type_synonym 'a log = "(level \<times> 'a message) list"

section \<open>The directory-based converter\<close>

text \<open>
  The functions of \<open>convert_nuscenes_to_json.py\<close>. A function that logs returns the
  records it emitted, in order, beside its result; a function that raises returns
  \<open>Inl\<close> of the error, with the records emitted before the exception. The file system
  is read through \<open>os_listdir\<close>, \<open>os_path_exists\<close> and \<open>np_loadtxt\<close> and is written
  only by \<open>json_dump\<close>.
\<close>

type_synonym 'a extrinsics = "(string \<times> 'a ndarray) list"
  \<comment> \<open>the dict \<open>extrinsics\<close>, in insertion order\<close>

fun load_extrinsics_loop ::
  "'a fs \<Rightarrow> string \<Rightarrow> string list \<Rightarrow> 'a extrinsics \<times> nat
     \<Rightarrow> (error + 'a extrinsics \<times> nat) \<times> 'a log" where
  \<comment> \<open>the loop \<open>for filename in files\<close> on \<open>extrinsics\<close> and \<open>valid_files\<close>\<close>
  "load_extrinsics_loop fs extrinsics_dir [] acc = (Inr acc, [])"
| "load_extrinsics_loop fs extrinsics_dir (filename # rest) (extrinsics, valid_files) =
     (let filepath = os_path_join extrinsics_dir filename in
      case np_loadtxt fs filepath of
        Inl e \<Rightarrow> (Inl e, [])
      | Inr matrix \<Rightarrow>
          if shape matrix = [4, 4] then
            (let (r, lg) = load_extrinsics_loop fs extrinsics_dir rest
                             (AList.update (strip4 filename) matrix extrinsics, Suc valid_files)
             in (r, (INFO, Loaded_extrinsics_for (strip4 filename)) # lg))
          else (Inl (ValueError_InvalidShape filepath (shape matrix)), []))"

definition load_extrinsics_from_directory ::
  "'a fs \<Rightarrow> string \<Rightarrow> (error + 'a extrinsics) \<times> 'a log" where
  "load_extrinsics_from_directory fs extrinsics_dir =
     (let lg0 = [(INFO, Scanning_extrinsics_directory extrinsics_dir)] in
      case os_listdir fs extrinsics_dir of
        Inl e \<Rightarrow> (Inl e, lg0)
      | Inr names \<Rightarrow>
          (let files = filter (\<lambda>f. endswith f ''.txt'') names in
           if files = [] then
             (Inr [], lg0 @ [(ERROR, No_extrinsics_files_found extrinsics_dir)])
           else
             (let lg1 = lg0 @ [(INFO, Found_potential_files (length files))] in
              case load_extrinsics_loop fs extrinsics_dir files ([], 0) of
                (Inl e, lg) \<Rightarrow> (Inl e, lg1 @ lg)
              | (Inr (extrinsics, valid_files), lg) \<Rightarrow>
                  (Inr extrinsics,
                   lg1 @ lg @ [(INFO, Successfully_loaded_files valid_files (length files))]))))"

definition load_intrinsics ::
  "'a fs \<Rightarrow> string \<Rightarrow> string \<Rightarrow> int \<Rightarrow> int \<Rightarrow> (error + 'a intrinsics option) \<times> 'a log" where
  \<comment> \<open>the parameters are \<open>intrinsics_path\<close>, \<open>camera_id\<close>, \<open>width\<close> and \<open>height\<close>;
      \<open>len(data)\<close> raises on a 0-d array; on a 2-d array \<open>data[0]\<close> is a row, which the
      format \<open>{fx:.2f}\<close> of the log message rejects\<close>
  "load_intrinsics fs ipath cam_id w h =
     (let intrinsics_file = os_path_join ipath (cam_id @ ''.txt'') in
      if \<not> os_path_exists fs intrinsics_file then
        (Inr None, [(ERROR, Intrinsics_file_not_found intrinsics_file)])
      else
        case np_loadtxt fs intrinsics_file of
          Inl e \<Rightarrow> (Inl e, [])
        | Inr (Arr0 x) \<Rightarrow> (Inl (TypeError ''len() of unsized object''), [])
        | Inr (Arr1 data) \<Rightarrow>
            if length data \<ge> 4 then
              (Inr (Some \<lparr>fx = data ! 0, fy = data ! 1, cx = data ! 2, cy = data ! 3,
                          width = w, height = h\<rparr>),
               [(INFO, Loaded_intrinsics_from (os_path_basename intrinsics_file)
                         (data ! 0) (data ! 1) (data ! 2) (data ! 3))])
            else (Inl (ValueError_Insufficient intrinsics_file (length data)), [])
        | Inr (Arr2 rows) \<Rightarrow>
            if length rows \<ge> 4 then
              (Inl (TypeError ''unsupported format string passed to numpy.ndarray.__format__''), [])
            else (Inl (ValueError_Insufficient intrinsics_file (length rows)), []))"

record args =
  extrinsics_path :: string
  intrinsics_path :: string
  output_path :: string
  images_dir :: "string option"
  image_ext :: string
  arg_width :: int
  arg_height :: int
  camera_id :: string
  apply_nerf_transform :: bool
  multi_camera :: bool

fun find_camera_ids :: "string list \<Rightarrow> string list \<Rightarrow> string list" where
  \<comment> \<open>the loop that fills the set \<open>camera_ids\<close>; the set is a list without repetitions\<close>
  "find_camera_ids [] camera_ids = camera_ids"
| "find_camera_ids (camera_name # rest) camera_ids =
     (let parts = split_sep CHR ''_'' camera_name in
      if length parts = 2 then find_camera_ids rest (List.insert (parts ! 1) camera_ids)
      else find_camera_ids rest camera_ids)"

type_synonym 'a all_intrinsics = "(string \<times> 'a intrinsics option) list"

fun load_all_intrinsics ::
  "'a fs \<Rightarrow> string \<Rightarrow> int \<Rightarrow> int \<Rightarrow> string list \<Rightarrow> 'a all_intrinsics
     \<Rightarrow> (error + 'a all_intrinsics) \<times> 'a log" where
  \<comment> \<open>the loop \<open>for cam_id in sorted(camera_ids)\<close>\<close>
  "load_all_intrinsics fs ipath w h [] all_intrinsics = (Inr all_intrinsics, [])"
| "load_all_intrinsics fs ipath w h (cam_id # rest) all_intrinsics =
     (let lg0 = [(INFO, Loading_intrinsics_for_camera cam_id)] in
      case load_intrinsics fs ipath cam_id w h of
        (Inl e, lg) \<Rightarrow> (Inl e, lg0 @ lg)
      | (Inr intrinsics, lg) \<Rightarrow>
          (let (r, lg') = load_all_intrinsics fs ipath w h rest
                            (AList.update cam_id intrinsics all_intrinsics)
           in (r, lg0 @ lg @ lg')))"

definition first_frame_candidates :: "'a extrinsics \<Rightarrow> string list" where
  "first_frame_candidates extrinsics =
     filter (\<lambda>name. endswith name ''_0'') (sort (map fst extrinsics))"

definition select_camera_front_start ::
  "args \<Rightarrow> 'a fs \<Rightarrow> 'a extrinsics \<Rightarrow> 'a ndarray option \<times> 'a log" where
  \<comment> \<open>the value of \<open>camera_front_start\<close> after the block that loads the first camera pose\<close>
  "select_camera_front_start a fs extrinsics =
     (if os_path_exists fs (extrinsics_path a) then
        (case first_frame_candidates extrinsics of
           first_camera_name # _ \<Rightarrow>
             (case map_of extrinsics first_camera_name of
                Some m \<Rightarrow> (Some m, [(INFO, Applying_camera_alignment first_camera_name)])
              | None \<Rightarrow> (None, [(WARNING, Could_not_load_first_camera_pose first_camera_name)]))
         | [] \<Rightarrow> (None, [(WARNING, No_front_camera_found)]))
      else (None, []))"

definition align ::
  "'a::field lapack \<Rightarrow> 'a ndarray option \<Rightarrow> 'a ndarray \<Rightarrow> error + 'a ndarray" where
  \<comment> \<open>\<open>np.matmul(np.linalg.inv(camera_front_start), transform_matrix)\<close> when there is a
      reference pose\<close>
  "align lapack camera_front_start pose =
     (case camera_front_start of
        None \<Rightarrow> Inr pose
      | Some reference \<Rightarrow>
          (case np_linalg_inv lapack reference of
             Inl e \<Rightarrow> Inl e
           | Inr reference_inverse \<Rightarrow> np_matmul reference_inverse pose))"

definition image_path_of :: "args \<Rightarrow> string \<Rightarrow> string" where
  \<comment> \<open>\<open>if images_dir:\<close> is false for \<open>None\<close> and for the empty string\<close>
  "image_path_of a camera_name =
     (case images_dir a of
        Some d \<Rightarrow> if d \<noteq> [] then d @ ''/'' @ camera_name @ image_ext a
                  else ''images/'' @ camera_name @ image_ext a
      | None \<Rightarrow> ''images/'' @ camera_name @ image_ext a)"

definition process_frame ::
  "'a::field lapack \<Rightarrow> args \<Rightarrow> 'a extrinsics \<Rightarrow> 'a ndarray option \<Rightarrow> 'a all_intrinsics \<Rightarrow> string
     \<Rightarrow> error + 'a frame" where
  \<comment> \<open>the body of the loop \<open>for camera_name in sorted(extrinsics.keys())\<close>\<close>
  "process_frame lapack a extrinsics camera_front_start all_intrinsics camera_name =
     (case map_of extrinsics camera_name of
        None \<Rightarrow> Inl (KeyError camera_name)
      | Some raw \<Rightarrow>
          (case align lapack camera_front_start raw of
             Inl e \<Rightarrow> Inl e
           | Inr pose \<Rightarrow>
               (let image_path = image_path_of a camera_name in
                if multi_camera a then
                  (let parts = split_sep CHR ''_'' camera_name in
                   if length parts \<noteq> 2 then Inl (AssertionError (Some camera_name))
                   else
                     (let cam_id = parts ! 1 in
                      case map_of all_intrinsics cam_id of
                        None \<Rightarrow> Inl (AssertionError None)
                      | Some None \<Rightarrow> Inl (TypeError ''NoneType object is not subscriptable'')
                      | Some (Some cam_intrinsics) \<Rightarrow>
                          Inr \<lparr>file_path = image_path, transform_matrix = pose,
                               per_frame = Some \<lparr>fl_x = fx cam_intrinsics, fl_y = fy cam_intrinsics,
                                                  c_x = cx cam_intrinsics, c_y = cy cam_intrinsics,
                                                  im_w = width cam_intrinsics,
                                                  im_h = height cam_intrinsics\<rparr>\<rparr>))
                else Inr \<lparr>file_path = image_path, transform_matrix = pose,
                          per_frame = None\<rparr>)))"

fun process_frames ::
  "'a::field lapack \<Rightarrow> args \<Rightarrow> 'a extrinsics \<Rightarrow> 'a ndarray option \<Rightarrow> 'a all_intrinsics \<Rightarrow> string list
     \<Rightarrow> 'a frame list \<Rightarrow> error + 'a frame list" where
  \<comment> \<open>the loop itself, appending to \<open>transforms["frames"]\<close>\<close>
  "process_frames lapack a extrinsics cfs all_intrinsics [] frames_acc = Inr frames_acc"
| "process_frames lapack a extrinsics cfs all_intrinsics (camera_name # rest) frames_acc =
     (case process_frame lapack a extrinsics cfs all_intrinsics camera_name of
        Inl e \<Rightarrow> Inl e
      | Inr frame \<Rightarrow>
          process_frames lapack a extrinsics cfs all_intrinsics rest (frames_acc @ [frame]))"

fun camera_summaries :: "'a all_intrinsics \<Rightarrow> string list \<Rightarrow> (error + unit) \<times> 'a log" where
  \<comment> \<open>the closing loop \<open>for cam_id in sorted(camera_ids)\<close> of log messages\<close>
  "camera_summaries all_intrinsics [] = (Inr (), [])"
| "camera_summaries all_intrinsics (cam_id # rest) =
     (case map_of all_intrinsics cam_id of
        None \<Rightarrow> (Inl (KeyError cam_id), [])
      | Some None \<Rightarrow> (Inl (TypeError ''NoneType object is not subscriptable''), [])
      | Some (Some ci) \<Rightarrow>
          (let (r, lg) = camera_summaries all_intrinsics rest
           in (r, (INFO, Camera_summary cam_id (width ci) (height ci) (fx ci) (fy ci)) # lg)))"

text \<open>
  The result of a run: what the call returned or raised, the file system it left, and
  the records it logged.
\<close>

type_synonym 'a run = "(error + bool) \<times> 'a fs \<times> 'a log"

definition convert_nuscenes_to_transforms ::
  "'a::field lapack \<Rightarrow> args \<Rightarrow> 'a fs \<Rightarrow> 'a run" where
  "convert_nuscenes_to_transforms lapack a fs =
     (let lg0 = [(INFO, Loading_extrinsics_from (extrinsics_path a))] in
      case load_extrinsics_from_directory fs (extrinsics_path a) of
        (Inl e, lg1) \<Rightarrow> (Inl e, fs, lg0 @ lg1)
      | (Inr extrinsics, lg1) \<Rightarrow>
          if extrinsics = [] then
            (Inr False, fs, lg0 @ lg1 @ [(ERROR, No_extrinsics_data_loaded)])
          else if \<not> multi_camera a then (Inl NotImplementedError, fs, lg0 @ lg1)
          else
            (let lg2 = lg0 @ lg1 @ [(INFO, Multi_camera_loading_intrinsics (intrinsics_path a))];
                 camera_ids = find_camera_ids (map fst extrinsics) [];
                 lg3 = lg2 @ [(INFO, Detected_cameras (sort camera_ids))]
             in
             case load_all_intrinsics fs (intrinsics_path a) (arg_width a) (arg_height a)
                    (sort camera_ids) [] of
               (Inl e, lg) \<Rightarrow> (Inl e, fs, lg3 @ lg)
             | (Inr all_intrinsics, lg) \<Rightarrow>
                 (let lg4 = lg3 @ lg @ [(INFO, Successfully_loaded_intrinsics (length camera_ids))];
                      (camera_front_start, lg') =
                         select_camera_front_start a fs extrinsics;
                      lg5 = lg4 @ lg'
                  in
                  case process_frames lapack a extrinsics camera_front_start all_intrinsics
                         (sort (map fst extrinsics)) [] of
                    Inl e \<Rightarrow> (Inl e, fs, lg5)
                  | Inr frames_list \<Rightarrow>
                      (let lg6 = lg5 @ [(INFO, Saving_transforms_to (output_path a))] in
                       case json_dump fs (output_path a)
                              \<lparr>shared = None, frames = frames_list\<rparr> of
                         Inl e \<Rightarrow> (Inl e, fs, lg6)
                       | Inr fs' \<Rightarrow>
                           (let lg7 = lg6 @
                                  [(INFO, Successfully_converted (length extrinsics) (output_path a)),
                                   (INFO, Multi_camera_summary (length camera_ids))]
                            in
                            case camera_summaries all_intrinsics (sort camera_ids) of
                              (Inl e, lg) \<Rightarrow> (Inl e, fs', lg7 @ lg)
                            | (Inr u, lg) \<Rightarrow> (Inr True, fs', lg7 @ lg))))))"

definition outcome :: "'r \<times> 'a fs \<times> 'a log \<Rightarrow> 'r" where
  "outcome r = fst r"

definition final_files :: "'r \<times> 'a fs \<times> 'a log \<Rightarrow> 'a fs" where
  "final_files r = fst (snd r)"

definition logged :: "'r \<times> 'a fs \<times> 'a log \<Rightarrow> 'a log" where
  "logged r = snd (snd r)"

definition camera_component :: "string \<Rightarrow> string option" where
  \<comment> \<open>the camera id of a key: \<open>parts[1]\<close> when \<open>key.split('_')\<close> has exactly two parts\<close>
  "camera_component key =
     (let parts = split_sep CHR ''_'' key in
      if length parts = 2 then Some (parts ! 1) else None)"

section \<open>The flat converter\<close>

text \<open>
  The function of \<open>convert_cameras_json.py\<close>. A camera's \<open>rotation\<close> is a list of lists
  of numbers and its \<open>position\<close> a list of numbers; \<open>np.array\<close> rejects rows of
  different lengths, and an assignment to a slice broadcasts its right-hand side to the
  shape of the slice or raises.
\<close>

definition np_array_rows :: "'a list list \<Rightarrow> error + 'a ndarray" where
  \<comment> \<open>\<open>np.array\<close> of a list of lists of numbers\<close>
  "np_array_rows rows =
     (if rows = [] then Inr (Arr1 [])
      else if rectangular rows then Inr (Arr2 rows)
      else Inl (ValueError_Numpy ''inhomogeneous shape''))"

definition broadcast_row :: "nat \<Rightarrow> 'a list \<Rightarrow> error + 'a list" where
  "broadcast_row c xs =
     (if length xs = c then Inr xs
      else if length xs = 1 then Inr (replicate c (xs ! 0))
      else Inl (ValueError_Numpy ''could not broadcast input array''))"

fun broadcast_block :: "nat \<Rightarrow> nat \<Rightarrow> 'a ndarray \<Rightarrow> error + 'a list list" where
  \<comment> \<open>the value broadcast to the shape \<open>(r, c)\<close>\<close>
  "broadcast_block r c (Arr0 x) = Inr (replicate r (replicate c x))"
| "broadcast_block r c (Arr1 xs) =
     (case broadcast_row c xs of Inl e \<Rightarrow> Inl e | Inr row \<Rightarrow> Inr (replicate r row))"
| "broadcast_block r c (Arr2 rows) =
     (if (length rows = r \<or> length rows = 1) \<and> (ncols rows = c \<or> ncols rows = 1) then
        (let rows' = (if length rows = r then rows else replicate r (rows ! 0))
         in Inr (map (\<lambda>row. if ncols rows = c then row else replicate c (row ! 0)) rows'))
      else Inl (ValueError_Numpy ''could not broadcast input array''))"

definition set_top_left :: "'a list list \<Rightarrow> 'a list list \<Rightarrow> 'a list list" where
  \<comment> \<open>\<open>m[:3, :3] = block\<close> for a 3 by 3 \<open>block\<close>\<close>
  "set_top_left block m =
     map (\<lambda>i. block ! i @ drop 3 (m ! i)) [0..<3] @ drop 3 m"

definition set_last_column :: "'a list \<Rightarrow> 'a list list \<Rightarrow> 'a list list" where
  \<comment> \<open>\<open>m[:3, 3] = vec\<close> for a \<open>vec\<close> of length 3\<close>
  "set_last_column vec m =
     map (\<lambda>i. (m ! i)[3 := vec ! i]) [0..<3] @ drop 3 m"

definition camera_transform :: "'a::zero_neq_one camera \<Rightarrow> error + 'a ndarray" where
  \<comment> \<open>the 4 by 4 matrix built in the loop body\<close>
  "camera_transform cam =
     (case np_array_rows (cam_rotation cam) of
        Inl e \<Rightarrow> Inl e
      | Inr rotation \<Rightarrow>
          (let position = cam_position cam;
               m0 = eye 4
           in
           case broadcast_block 3 3 rotation of
             Inl e \<Rightarrow> Inl e
           | Inr block \<Rightarrow>
               (let m1 = set_top_left block m0 in
                case broadcast_row 3 position of
                  Inl e \<Rightarrow> Inl e
                | Inr vec \<Rightarrow> Inr (Arr2 (set_last_column vec m1)))))"

fun camera_frames :: "'a::zero_neq_one camera list \<Rightarrow> 'a frame list \<Rightarrow> error + 'a frame list" where
  \<comment> \<open>the loop \<open>for cam in cameras_data\<close>\<close>
  "camera_frames [] frames_acc = Inr frames_acc"
| "camera_frames (cam # rest) frames_acc =
     (case camera_transform cam of
        Inl e \<Rightarrow> Inl e
      | Inr m \<Rightarrow>
          camera_frames rest
            (frames_acc @ [\<lparr>file_path = ''images/'' @ cam_img_name cam @ ''.jpg'',
                             transform_matrix = m, per_frame = None\<rparr>]))"

definition json_load_cameras :: "'a fs \<Rightarrow> string \<Rightarrow> error + 'a camera list" where
  \<comment> \<open>\<open>with open(input_path, 'r') as f: cameras_data = json.load(f)\<close>\<close>
  "json_load_cameras fs input_path =
     (case fs input_path of
        Some (CamerasJson cameras) \<Rightarrow> Inr cameras
      | Some (Directory _) \<Rightarrow> Inl (OSError input_path)
      | Some _ \<Rightarrow> Inl (ValueError_Numpy input_path)
      | None \<Rightarrow> Inl (OSError input_path))"

definition convert_cameras_to_transforms ::
  "string \<Rightarrow> string \<Rightarrow> 'a::zero_neq_one fs \<Rightarrow> (error + unit) \<times> 'a fs \<times> 'a log" where
  \<comment> \<open>the parameters are \<open>input_path\<close> and \<open>output_path\<close>\<close>
  "convert_cameras_to_transforms input_file output_file fs =
     (case json_load_cameras fs input_file of
        Inl e \<Rightarrow> (Inl e, fs, [])
      | Inr cameras_data \<Rightarrow>
          (case cameras_data of
             [] \<Rightarrow> (Inl ValueError_EmptyCameras, fs, [])
           | first_cam # _ \<Rightarrow>
               (case camera_frames cameras_data [] of
                  Inl e \<Rightarrow> (Inl e, fs, [])
                | Inr frames_list \<Rightarrow>
                    (case json_dump fs output_file
                            \<lparr>shared = Some \<lparr>shared_fl_x = cam_fx first_cam,
                                             shared_fl_y = cam_fy first_cam,
                                             shared_w = cam_width first_cam,
                                             shared_h = cam_height first_cam\<rparr>,
                             frames = frames_list\<rparr> of
                       Inl e \<Rightarrow> (Inl e, fs, [])
                     | Inr fs' \<Rightarrow>
                         (Inr (), fs',
                          [(PRINT, Converted_cameras (length cameras_data) input_file output_file),
                           (PRINT, Image_resolution (cam_width first_cam) (cam_height first_cam)),
                           (PRINT, Focal_lengths (cam_fx first_cam) (cam_fy first_cam))])))))"

section \<open>Notions used in the statements\<close>

fun intrinsics_message :: "'a message \<Rightarrow> bool" where
  \<comment> \<open>the messages logged when intrinsics are loaded\<close>
  "intrinsics_message (Multi_camera_loading_intrinsics _) = True"
| "intrinsics_message (Loading_intrinsics_for_camera _) = True"
| "intrinsics_message (Intrinsics_file_not_found _) = True"
| "intrinsics_message (Loaded_intrinsics_from _ _ _ _ _) = True"
| "intrinsics_message _ = False"

text \<open>The parts of a 4 by 4 matrix that the flat converter fills.\<close>

definition top_left_block :: "'a list list \<Rightarrow> 'a list list" where
  "top_left_block m = map (take 3) (take 3 m)"

definition top_right_column :: "'a list list \<Rightarrow> 'a list" where
  "top_right_column m = map (\<lambda>r. r ! 3) (take 3 m)"

section \<open>Example inputs\<close>

definition cameras_example :: "rat camera list" where
  "cameras_example =
     [\<lparr>cam_img_name = ''a'', cam_fx = 500, cam_fy = 501, cam_width = 640, cam_height = 480,
       cam_rotation = [[1, 2, 3], [4, 5, 6], [7, 8, 9]], cam_position = [10, 11, 12]\<rparr>,
      \<lparr>cam_img_name = ''b'', cam_fx = 400, cam_fy = 401, cam_width = 320, cam_height = 240,
       cam_rotation = [[0, 1, 0], [1, 0, 0], [0, 0, 1]], cam_position = [0, 0, 5]\<rparr>]"

definition cameras_fs :: "rat fs" where
  "cameras_fs = (\<lambda>p. None)(''cameras.json'' \<mapsto> CamerasJson cameras_example)"

definition nuscenes_fs :: "rat fs" where
  "nuscenes_fs = (\<lambda>p. None)(
     ''ext'' \<mapsto> Directory [''001_0.txt'', ''000_1.txt'', ''000_0.txt'', ''notes.md''],
     ''ext/000_0.txt'' \<mapsto> NumericText [[1, 0, 0, 1], [0, 1, 0, 2], [0, 0, 1, 3], [0, 0, 0, 1]],
     ''ext/000_1.txt'' \<mapsto> NumericText [[1, 0, 0, 5], [0, 1, 0, 6], [0, 0, 1, 7], [0, 0, 0, 1]],
     ''ext/001_0.txt'' \<mapsto> NumericText [[0, 1, 0, 0], [1, 0, 0, 0], [0, 0, 2, 0], [0, 0, 0, 1]],
     ''int'' \<mapsto> Directory [''0.txt'', ''1.txt''],
     ''int/0.txt'' \<mapsto> NumericText [[500, 500, 320, 240, 0, 0]],
     ''int/1.txt'' \<mapsto> NumericText [[600, 600, 330, 250, 0, 0]])"

definition nuscenes_args :: args where
  "nuscenes_args =
     \<lparr>extrinsics_path = ''ext'', intrinsics_path = ''int'', output_path = ''out.json'',
      images_dir = Some ''images'', image_ext = ''.jpg'', arg_width = 1600, arg_height = 900,
      camera_id = ''0'', apply_nerf_transform = False, multi_camera = True\<rparr>"

definition nuscenes_extrinsics :: "rat extrinsics" where
  "nuscenes_extrinsics =
     [(''001_0'', Arr2 [[0, 1, 0, 0], [1, 0, 0, 0], [0, 0, 2, 0], [0, 0, 0, 1]]),
      (''000_1'', Arr2 [[1, 0, 0, 5], [0, 1, 0, 6], [0, 0, 1, 7], [0, 0, 0, 1]]),
      (''000_0'', Arr2 [[1, 0, 0, 1], [0, 1, 0, 2], [0, 0, 1, 3], [0, 0, 0, 1]])]"

definition malformed_fs :: "rat fs" where
  "malformed_fs = (\<lambda>p. None)(
     ''ext'' \<mapsto> Directory [''000_0.txt'', ''000_1.txt''],
     ''ext/000_0.txt'' \<mapsto> NumericText [[1, 0, 0, 1], [0, 1, 0, 2], [0, 0, 1, 3], [0, 0, 0, 1]],
     ''ext/000_1.txt'' \<mapsto> NumericText [[1, 0, 0], [0, 1, 0], [0, 0, 1]],
     ''int'' \<mapsto> Directory [''0.txt'', ''1.txt''],
     ''int/0.txt'' \<mapsto> NumericText [[500, 500, 320, 240, 0, 0]],
     ''int/1.txt'' \<mapsto> NumericText [[600, 600, 330, 250, 0, 0]])"

definition empty_fs :: "rat fs" where
  "empty_fs = (\<lambda>p. None)(
     ''ext'' \<mapsto> Directory [''notes.md''],
     ''int'' \<mapsto> Directory [''0.txt''],
     ''int/0.txt'' \<mapsto> NumericText [[500, 500, 320, 240, 0, 0]])"

definition missing_intrinsics_fs :: "rat fs" where
  \<comment> \<open>the intrinsics of camera 1 are absent\<close>
  "missing_intrinsics_fs = (\<lambda>p. None)(
     ''ext'' \<mapsto> Directory [''001_0.txt'', ''000_1.txt'', ''000_0.txt''],
     ''ext/000_0.txt'' \<mapsto> NumericText [[1, 0, 0, 1], [0, 1, 0, 2], [0, 0, 1, 3], [0, 0, 0, 1]],
     ''ext/000_1.txt'' \<mapsto> NumericText [[1, 0, 0, 5], [0, 1, 0, 6], [0, 0, 1, 7], [0, 0, 0, 1]],
     ''ext/001_0.txt'' \<mapsto> NumericText [[0, 1, 0, 0], [1, 0, 0, 0], [0, 0, 2, 0], [0, 0, 0, 1]],
     ''int'' \<mapsto> Directory [''0.txt''],
     ''int/0.txt'' \<mapsto> NumericText [[500, 500, 320, 240, 0, 0]])"



definition stray_fs :: "rat fs" where
  \<comment> \<open>a key of three parts that ends in \<open>_0\<close>\<close>
  "stray_fs = (\<lambda>p. None)(
     ''ext'' \<mapsto> Directory [''1_0.txt'', ''0_1_0.txt''],
     ''ext/0_1_0.txt'' \<mapsto> NumericText [[1, 0, 0, 5], [0, 1, 0, 6], [0, 0, 1, 7], [0, 0, 0, 1]],
     ''ext/1_0.txt'' \<mapsto> NumericText [[1, 0, 0, 1], [0, 1, 0, 2], [0, 0, 1, 3], [0, 0, 0, 1]],
     ''int'' \<mapsto> Directory [''0.txt''],
     ''int/0.txt'' \<mapsto> NumericText [[500, 500, 320, 240, 0, 0]])"

definition stray_extrinsics :: "rat extrinsics" where
  "stray_extrinsics =
     [(''1_0'', Arr2 [[1, 0, 0, 1], [0, 1, 0, 2], [0, 0, 1, 3], [0, 0, 0, 1]]),
      (''0_1_0'', Arr2 [[1, 0, 0, 5], [0, 1, 0, 6], [0, 0, 1, 7], [0, 0, 0, 1]])]"

definition lapack_raises :: "rat lapack" where
  \<comment> \<open>the inversion raises for every matrix without an inverse\<close>
  "lapack_raises = (\<lambda>rows. None)"



definition unparsable_fs :: "rat fs" where
  \<comment> \<open>a file that is not numeric is listed before a file of shape \<open>(3, 3)\<close>\<close>
  "unparsable_fs = (\<lambda>p. None)(
     ''ext'' \<mapsto> Directory [''000_0.txt'', ''000_1.txt''],
     ''ext/000_0.txt'' \<mapsto> OtherFile,
     ''ext/000_1.txt'' \<mapsto> NumericText [[1, 0, 0], [0, 1, 0], [0, 0, 1]],
     ''int'' \<mapsto> Directory [''0.txt'', ''1.txt''],
     ''int/0.txt'' \<mapsto> NumericText [[500, 500, 320, 240, 0, 0]],
     ''int/1.txt'' \<mapsto> NumericText [[600, 600, 330, 250, 0, 0]])"


section \<open>Writing the document\<close>

lemma json_dump_Inr: "json_dump fs p doc = Inr fs' \<Longrightarrow> fs' p = Some (TransformsJson doc)"
  by (auto simp: json_dump_def split: if_splits)

section \<open>Properties of the flat converter\<close>

lemma length3_conv: "length xs = 3 \<longleftrightarrow> (\<exists>a b c. xs = [a, b, c])"
  by (auto simp: length_Suc_conv numeral_3_eq_3)


lemma upt_3: "[0..<3] = [0, 1, 2]"
  by (simp add: upt_rec)

lemma upt_4: "[0..<4] = [0, 1, 2, 3]"
  by (simp add: upt_rec)

lemma eye_4: "eye 4 = [[1, 0, 0, 0], [0, 1, 0, 0], [0, 0, 1, 0], [0, 0, 0, 1]]"
  by (simp add: eye_def upt_4)

lemma broadcast_row_length: "broadcast_row c xs = Inr row \<Longrightarrow> length row = c"
  by (auto simp: broadcast_row_def split: if_splits)

lemma broadcast_row_exact: "length xs = c \<Longrightarrow> broadcast_row c xs = Inr xs"
  by (simp add: broadcast_row_def)

lemma rectangular_nth: "rectangular rows \<Longrightarrow> r \<in> set rows \<Longrightarrow> length r = ncols rows"
  by (simp add: rectangular_def list_all_iff)

lemma broadcast_block_dims:
  assumes "broadcast_block r c v = Inr b" and "\<And>rows. v = Arr2 rows \<Longrightarrow> rectangular rows"
  shows "length b = r \<and> (\<forall>row \<in> set b. length row = c)"
proof (cases v)
  case (Arr0 x)
  with assms(1) show ?thesis by auto
next
  case (Arr1 xs)
  with assms(1) show ?thesis
    by (auto split: sum.splits dest: broadcast_row_length)
next
  case (Arr2 rows)
  then have rect: "rectangular rows" by (rule assms(2))
  have nth0: "length rows = Suc 0 \<Longrightarrow> length (rows ! 0) = ncols rows"
    by (cases rows) (simp_all add: ncols_def)
  from assms(1) Arr2 rect nth0 show ?thesis
    by (auto split: if_splits dest: rectangular_nth)
qed

lemma broadcast_block_exact:
  "length rows = r \<Longrightarrow> ncols rows = c \<Longrightarrow> broadcast_block r c (Arr2 rows) = Inr rows"
  by simp

lemma np_array_rows_rect: "np_array_rows rows = Inr (Arr2 rs) \<Longrightarrow> rectangular rs \<and> rs = rows"
  by (auto simp: np_array_rows_def split: if_splits)

lemma camera_transform_shape:
  assumes "camera_transform cam = Inr t"
  shows "\<exists>r0 r1 r2 p. t = Arr2 [r0 @ [p ! 0], r1 @ [p ! 1], r2 @ [p ! 2], [0, 0, 0, 1]]
           \<and> length r0 = 3 \<and> length r1 = 3 \<and> length r2 = 3 \<and> length p = 3
           \<and> broadcast_row 3 (cam_position cam) = Inr p
           \<and> (\<exists>v. np_array_rows (cam_rotation cam) = Inr v \<and> broadcast_block 3 3 v = Inr [r0, r1, r2])"
proof -
  from assms obtain v b p where
    v: "np_array_rows (cam_rotation cam) = Inr v" and
    b: "broadcast_block 3 3 v = Inr b" and
    p: "broadcast_row 3 (cam_position cam) = Inr p" and
    t: "t = Arr2 (set_last_column p (set_top_left b (eye 4)))"
    by (auto simp: camera_transform_def Let_def split: sum.splits)
  have "length b = 3 \<and> (\<forall>row \<in> set b. length row = 3)"
    using b v by (intro broadcast_block_dims[of 3 3 v b]) (auto dest: np_array_rows_rect)
  then obtain r0 r1 r2 where b3: "b = [r0, r1, r2]" and
    l: "length r0 = 3" "length r1 = 3" "length r2 = 3"
    by (auto simp: length3_conv)
  have lp: "length p = 3" using p by (rule broadcast_row_length)
  have "set_last_column p (set_top_left b (eye 4)) =
          [r0 @ [p ! 0], r1 @ [p ! 1], r2 @ [p ! 2], [0, 0, 0, 1]]"
    using l by (simp add: set_last_column_def set_top_left_def b3 eye_4 upt_3 list_update_append)
  with t b3 l lp p v b show ?thesis by blast
qed

lemma camera_frames_all2:
  "camera_frames cams acc = Inr frs \<Longrightarrow>
     \<exists>new. frs = acc @ new \<and>
       list_all2 (\<lambda>cam fr. \<exists>m. camera_transform cam = Inr m \<and>
                    fr = \<lparr>file_path = ''images/'' @ cam_img_name cam @ ''.jpg'',
                          transform_matrix = m, per_frame = None\<rparr>) cams new"
proof (induction cams arbitrary: acc)
  case Nil
  then show ?case by simp
next
  case (Cons cam rest)
  from Cons.prems obtain m where m: "camera_transform cam = Inr m"
    and rest: "camera_frames rest (acc @ [\<lparr>file_path = ''images/'' @ cam_img_name cam @ ''.jpg'',
                             transform_matrix = m, per_frame = None\<rparr>]) = Inr frs"
    by (auto split: sum.splits)
  from Cons.IH[OF rest] m show ?case by auto
qed

lemma camera_transform_parts:
  assumes "camera_transform cam = Inr t"
  shows "\<exists>m. t = Arr2 m \<and> length m = 4 \<and> list_all (\<lambda>r. length r = 4) m \<and> m ! 3 = [0, 0, 0, 1] \<and>
           (length (cam_rotation cam) = 3 \<and> ncols (cam_rotation cam) = 3 \<and>
            length (cam_position cam) = 3 \<longrightarrow>
              top_left_block m = cam_rotation cam \<and> top_right_column m = cam_position cam)"
proof -
  from camera_transform_shape[OF assms] obtain r0 r1 r2 p v where
    t: "t = Arr2 [r0 @ [p ! 0], r1 @ [p ! 1], r2 @ [p ! 2], [0, 0, 0, 1]]" and
    l: "length r0 = 3" "length r1 = 3" "length r2 = 3" "length p = 3" and
    p: "broadcast_row 3 (cam_position cam) = Inr p" and
    v: "np_array_rows (cam_rotation cam) = Inr v" and
    b: "broadcast_block 3 3 v = Inr [r0, r1, r2]"
    by blast
  let ?m = "[r0 @ [p ! 0], r1 @ [p ! 1], r2 @ [p ! 2], [0, 0, 0, 1]]"
  have shape_ok: "length ?m = 4 \<and> list_all (\<lambda>r. length r = 4) ?m \<and> ?m ! 3 = [0, 0, 0, 1]"
    using l by simp
  have exact: "top_left_block ?m = cam_rotation cam \<and> top_right_column ?m = cam_position cam"
    if wf: "length (cam_rotation cam) = 3" "ncols (cam_rotation cam) = 3"
           "length (cam_position cam) = 3"
  proof -
    from wf(1) have ne: "cam_rotation cam \<noteq> []" by auto
    with v have v2: "v = Arr2 (cam_rotation cam)"
      by (auto simp: np_array_rows_def split: if_splits)
    with b wf have rot: "cam_rotation cam = [r0, r1, r2]" by simp
    from p wf(3) have pos: "p = cam_position cam" by (simp add: broadcast_row_def)
    from l(4) obtain p0 p1 p2 where p3: "p = [p0, p1, p2]" by (auto simp: length3_conv)
    show ?thesis
      using l by (simp add: top_left_block_def top_right_column_def rot pos[symmetric] p3 nth_append)
  qed
  from t shape_ok exact show ?thesis by blast
qed

text \<open>
  C10: when the flat converter succeeds, its document holds one frame for each camera record,
  in order; the matrix of every frame is 4 by 4 with bottom row \<open>[0, 0, 0, 1]\<close>, and
  for a record with a 3 by 3 rotation and a position of three numbers the top-left 3 by 3
  block of the matrix is the rotation and the first three entries of its last column are
  the position.
\<close>

theorem C10_flat_transform_matrix:
  assumes "outcome (convert_cameras_to_transforms input_file output_file fs) = Inr ()"
    and "json_load_cameras fs input_file = Inr cameras"
  shows "\<exists>doc. final_files (convert_cameras_to_transforms input_file output_file fs) output_file
                 = Some (TransformsJson doc) \<and>
           list_all2
             (\<lambda>cam fr. \<exists>m. transform_matrix fr = Arr2 m \<and>
                length m = 4 \<and> list_all (\<lambda>r. length r = 4) m \<and> m ! 3 = [0, 0, 0, 1] \<and>
                (length (cam_rotation cam) = 3 \<and> ncols (cam_rotation cam) = 3 \<and>
                 length (cam_position cam) = 3 \<longrightarrow>
                   top_left_block m = cam_rotation cam \<and> top_right_column m = cam_position cam))
             cameras (frames doc)"
proof -
  from assms obtain first_cam others frs fs' where
    cams: "cameras = first_cam # others" and
    frs: "camera_frames cameras [] = Inr frs" and
    dump: "json_dump fs output_file
             \<lparr>shared = Some \<lparr>shared_fl_x = cam_fx first_cam, shared_fl_y = cam_fy first_cam,
                              shared_w = cam_width first_cam, shared_h = cam_height first_cam\<rparr>,
              frames = frs\<rparr> = Inr fs'" and
    final: "final_files (convert_cameras_to_transforms input_file output_file fs) = fs'"
    by (auto simp: convert_cameras_to_transforms_def outcome_def final_files_def
             split: sum.splits list.splits)
  from dump have written: "fs' output_file = Some (TransformsJson
             \<lparr>shared = Some \<lparr>shared_fl_x = cam_fx first_cam, shared_fl_y = cam_fy first_cam,
                              shared_w = cam_width first_cam, shared_h = cam_height first_cam\<rparr>,
              frames = frs\<rparr>)"
    by (rule json_dump_Inr)
  from camera_frames_all2[OF frs] have
    "list_all2 (\<lambda>cam fr. \<exists>m. camera_transform cam = Inr m \<and>
                    fr = \<lparr>file_path = ''images/'' @ cam_img_name cam @ ''.jpg'',
                          transform_matrix = m, per_frame = None\<rparr>) cameras frs"
    by simp
  then have "list_all2
             (\<lambda>cam fr. \<exists>m. transform_matrix fr = Arr2 m \<and>
                length m = 4 \<and> list_all (\<lambda>r. length r = 4) m \<and> m ! 3 = [0, 0, 0, 1] \<and>
                (length (cam_rotation cam) = 3 \<and> ncols (cam_rotation cam) = 3 \<and>
                 length (cam_position cam) = 3 \<longrightarrow>
                   top_left_block m = cam_rotation cam \<and> top_right_column m = cam_position cam))
             cameras frs"
  proof (rule list_all2_mono)
    fix cam :: "'a camera" and fr :: "'a frame"
    assume "\<exists>m. camera_transform cam = Inr m \<and>
                    fr = \<lparr>file_path = ''images/'' @ cam_img_name cam @ ''.jpg'',
                          transform_matrix = m, per_frame = None\<rparr>"
    then obtain t where t: "camera_transform cam = Inr t" and fr: "transform_matrix fr = t"
      by auto
    from camera_transform_parts[OF t] fr
    show "\<exists>m. transform_matrix fr = Arr2 m \<and>
                length m = 4 \<and> list_all (\<lambda>r. length r = 4) m \<and> m ! 3 = [0, 0, 0, 1] \<and>
                (length (cam_rotation cam) = 3 \<and> ncols (cam_rotation cam) = 3 \<and>
                 length (cam_position cam) = 3 \<longrightarrow>
                   top_left_block m = cam_rotation cam \<and> top_right_column m = cam_position cam)"
      by simp
  qed
  with written final show ?thesis by simp
qed

theorem C10_flat_transform_matrix_witness:
  "outcome (convert_cameras_to_transforms ''cameras.json'' ''transforms.json'' cameras_fs) = Inr ()
   \<and> json_load_cameras cameras_fs ''cameras.json'' = Inr cameras_example
   \<and> list_all (\<lambda>cam. length (cam_rotation cam) = 3 \<and> ncols (cam_rotation cam) = 3 \<and>
                 length (cam_position cam) = 3) cameras_example
   \<and> (\<exists>doc. final_files (convert_cameras_to_transforms ''cameras.json'' ''transforms.json'' cameras_fs)
               ''transforms.json'' = Some (TransformsJson doc) \<and>
           list_all2
             (\<lambda>cam fr. \<exists>m. transform_matrix fr = Arr2 m \<and>
                length m = 4 \<and> list_all (\<lambda>r. length r = 4) m \<and> m ! 3 = [0, 0, 0, 1] \<and>
                (length (cam_rotation cam) = 3 \<and> ncols (cam_rotation cam) = 3 \<and>
                 length (cam_position cam) = 3 \<longrightarrow>
                   top_left_block m = cam_rotation cam \<and> top_right_column m = cam_position cam))
             cameras_example (frames doc))"
proof -
  have h1: "outcome (convert_cameras_to_transforms ''cameras.json'' ''transforms.json'' cameras_fs)
              = Inr ()"
    by code_simp
  have h2: "json_load_cameras cameras_fs ''cameras.json'' = Inr cameras_example"
    by (simp add: json_load_cameras_def cameras_fs_def)
  have h3: "list_all (\<lambda>cam. length (cam_rotation cam) = 3 \<and>
              ncols (cam_rotation cam) = 3 \<and> length (cam_position cam) = 3) cameras_example"
    by (simp add: cameras_example_def ncols_def)
  from h1 h2 h3 C10_flat_transform_matrix[OF h1 h2] show ?thesis by blast
qed

section \<open>Properties of the directory-based converter\<close>

subsection \<open>Keys and camera components\<close>

lemma endswith_iff: "endswith s suf \<longleftrightarrow> (\<exists>pre. s = pre @ suf)"
proof
  assume "endswith s suf"
  then have "s = take (length s - length suf) s @ suf"
    unfolding endswith_def by (metis append_take_drop_id)
  then show "\<exists>pre. s = pre @ suf" ..
next
  assume "\<exists>pre. s = pre @ suf"
  then show "endswith s suf" by (auto simp: endswith_def)
qed

lemma split_sep_not_Nil: "split_sep c s \<noteq> []"
  by (induction s) (auto split: list.splits)

lemma split_sep_sep: "split_sep c (c # xs) = [] # split_sep c xs"
  by simp

lemma split_sep_other:
  "x \<noteq> c \<Longrightarrow> split_sep c xs = p # ps \<Longrightarrow> split_sep c (x # xs) = (x # p) # ps"
  by simp

lemma join_sep_Cons: "join_sep c ((x # p) # ps) = x # join_sep c (p # ps)"
  by (cases ps) simp_all

lemma join_split_sep: "join_sep c (split_sep c s) = s"
proof (induction s)
  case Nil
  show ?case by simp
next
  case (Cons x xs)
  obtain p ps where ss: "split_sep c xs = p # ps"
    using split_sep_not_Nil[of c xs] by (cases "split_sep c xs") auto
  show ?case
  proof (cases "x = c")
    case True
    with Cons ss show ?thesis by (simp del: split_sep.simps(2) add: split_sep_sep)
  next
    case False
    from split_sep_other[OF False ss] Cons ss show ?thesis
      by (simp del: split_sep.simps(2) add: join_sep_Cons)
  qed
qed

lemma split_sep_parts: "part \<in> set (split_sep c s) \<Longrightarrow> c \<notin> set part"
proof (induction s arbitrary: part)
  case Nil
  then show ?case by simp
next
  case (Cons x xs)
  obtain p ps where ss: "split_sep c xs = p # ps"
    using split_sep_not_Nil[of c xs] by (cases "split_sep c xs") auto
  show ?case
  proof (cases "x = c")
    case True
    with Cons.prems have "part = [] \<or> part \<in> set (split_sep c xs)"
      by (simp del: split_sep.simps(2) add: split_sep_sep)
    with Cons.IH show ?thesis by auto
  next
    case False
    from Cons.prems split_sep_other[OF False ss] have "part = x # p \<or> part \<in> set ps"
      by (simp del: split_sep.simps(2))
    moreover have "c \<notin> set p" using Cons.IH[of p] ss by simp
    moreover have "part \<in> set ps \<Longrightarrow> c \<notin> set part" using Cons.IH[of part] ss by simp
    ultimately show ?thesis using False by auto
  qed
qed

lemma split_sep_no_sep: "c \<notin> set s \<Longrightarrow> split_sep c s = [s]"
  by (induction s) auto

lemma split_sep_append: "c \<notin> set p \<Longrightarrow> split_sep c (p @ c # q) = p # split_sep c q"
  by (induction p) auto

lemma split_sep_two:
  "split_sep c s = [p, q] \<longleftrightarrow> s = p @ c # q \<and> c \<notin> set p \<and> c \<notin> set q"
proof
  assume eq: "split_sep c s = [p, q]"
  from join_split_sep[of c s] eq have "s = p @ c # q" by simp
  moreover from split_sep_parts[of p c s] split_sep_parts[of q c s] eq
  have "c \<notin> set p" "c \<notin> set q" by simp_all
  ultimately show "s = p @ c # q \<and> c \<notin> set p \<and> c \<notin> set q" by simp
next
  assume "s = p @ c # q \<and> c \<notin> set p \<and> c \<notin> set q"
  then show "split_sep c s = [p, q]"
    by (simp add: split_sep_append split_sep_no_sep del: split_sep.simps(2))
qed

lemma length_2_conv: "length xs = 2 \<longleftrightarrow> (\<exists>a b. xs = [a, b])"
  by (auto simp: length_Suc_conv eval_nat_numeral)

lemma camera_component_Some_iff:
  "camera_component key = Some c \<longleftrightarrow>
     (\<exists>t. key = t @ CHR ''_'' # c \<and> CHR ''_'' \<notin> set t \<and> CHR ''_'' \<notin> set c)"
proof -
  have "camera_component key = Some c \<longleftrightarrow> (\<exists>t. split_sep CHR ''_'' key = [t, c])"
    by (auto simp: camera_component_def Let_def length_2_conv)
  then show ?thesis by (simp add: split_sep_two)
qed

lemma camera_component_None_iff:
  "camera_component key = None \<longleftrightarrow> length (split_sep CHR ''_'' key) \<noteq> 2"
  by (simp add: camera_component_def Let_def)

lemma endswith_camera_0:
  assumes "camera_component key = Some c"
  shows "endswith key ''_0'' \<longleftrightarrow> c = ''0''"
proof
  from assms obtain t where key: "key = t @ CHR ''_'' # c" and c: "CHR ''_'' \<notin> set c"
    by (auto simp: camera_component_Some_iff)
  { assume "endswith key ''_0''"
    then obtain pre where "key = pre @ ''_0''" by (auto simp: endswith_iff)
    with key have "rev (t @ CHR ''_'' # c) = rev (pre @ ''_0'')" by simp
    then have rv: "rev c @ CHR ''_'' # rev t = CHR ''0'' # CHR ''_'' # rev pre" by simp
    show "c = ''0''"
    proof (cases "rev c")
      case Nil
      with rv show ?thesis by simp
    next
      case (Cons x r)
      note outer = this
      with rv have x: "x = CHR ''0''" and r: "r @ CHR ''_'' # rev t = CHR ''_'' # rev pre"
        by auto
      show ?thesis
      proof (cases r)
        case Nil
        with outer x have "rev c = [CHR ''0'']" by simp
        then show ?thesis by simp
      next
        case (Cons y r')
        with r have "y = CHR ''_''" by simp
        with outer Cons have "CHR ''_'' \<in> set (rev c)" by simp
        with c show ?thesis by simp
      qed
    qed }
  { assume "c = ''0''"
    with key show "endswith key ''_0''" by (auto simp: endswith_iff) }
qed

lemma find_camera_ids_set:
  "set (find_camera_ids keys acc) =
     set acc \<union> {c. \<exists>k \<in> set keys. camera_component k = Some c}"
proof (induction keys arbitrary: acc)
  case Nil
  then show ?case by simp
next
  case (Cons k rest)
  show ?case
  proof (cases "length (split_sep CHR ''_'' k) = 2")
    case True
    then have "camera_component k = Some (split_sep CHR ''_'' k ! 1)"
      by (simp add: camera_component_def)
    with True Cons.IH[of "List.insert (split_sep CHR ''_'' k ! 1) acc"] show ?thesis
      by (auto simp: Let_def)
  next
    case False
    then have "camera_component k = None" by (simp add: camera_component_def)
    with False Cons.IH[of acc] show ?thesis by (auto simp: Let_def)
  qed
qed

lemma find_camera_ids_distinct: "distinct acc \<Longrightarrow> distinct (find_camera_ids keys acc)"
  by (induction keys arbitrary: acc) (auto simp: Let_def)

subsection \<open>Loading the extrinsics\<close>

lemma loadtxt_rows_rectangular: "loadtxt_rows lines = Inr (Arr2 rows) \<Longrightarrow> rectangular rows"
  by (auto simp: loadtxt_rows_def rectangular_def ncols_def Let_def list_all_iff
           split: list.splits if_splits)

lemma np_loadtxt_rectangular: "np_loadtxt fs p = Inr (Arr2 rows) \<Longrightarrow> rectangular rows"
  by (auto simp: np_loadtxt_def split: option.splits node.splits dest: loadtxt_rows_rectangular)

lemma shape_4_4:
  assumes "shape m = [4, 4]" and "\<And>rows. m = Arr2 rows \<Longrightarrow> rectangular rows"
  shows "is_4x4 m"
proof (cases m)
  case (Arr2 rows)
  with assms(1) have l: "length rows = 4" and c: "ncols rows = 4" by simp_all
  from assms(2)[OF Arr2] c have "list_all (\<lambda>r. length r = 4) rows"
    by (simp add: rectangular_def)
  with l Arr2 show ?thesis by (simp add: is_4x4_def)
qed (use assms(1) in auto)


lemma map_of_update_Some:
  "map_of (AList.update k v al) k' = Some x \<Longrightarrow> (k' = k \<and> x = v) \<or> map_of al k' = Some x"
  by (auto simp: update_conv' split: if_splits)

lemma set_update_subset: "set (AList.update k v al) \<subseteq> insert (k, v) (set al)"
  by (induction al) auto

lemma load_extrinsics_loop_Inr:
  assumes "load_extrinsics_loop fs d files (acc, n) = (Inr (extrinsics, n'), lg)"
  shows "distinct (map fst acc) \<longrightarrow> distinct (map fst extrinsics)"
    and "set (map fst extrinsics) = set (map fst acc) \<union> strip4 ` set files"
    and "(\<forall>m \<in> snd ` set acc. is_4x4 m) \<longrightarrow> (\<forall>m \<in> snd ` set extrinsics. is_4x4 m)"
    and "list_all (\<lambda>f. \<exists>m. np_loadtxt fs (os_path_join d f) = Inr m \<and> shape m = [4, 4]) files"
  using assms
proof (induction files arbitrary: acc n lg)
  case Nil
  { case 1 then show ?case by simp }
  { case 2 then show ?case by simp }
  { case 3 then show ?case by simp }
  { case 4 then show ?case by simp }
next
  case (Cons f rest)
  { case 1
    then obtain m lg' where m: "np_loadtxt fs (os_path_join d f) = Inr m" "shape m = [4, 4]"
      and rest: "load_extrinsics_loop fs d rest (AList.update (strip4 f) m acc, Suc n)
                   = (Inr (extrinsics, n'), lg')"
      by (auto simp: Let_def split: sum.splits if_splits prod.splits)
    from Cons.IH(1)[OF rest] show ?case by (simp add: distinct_update) }
  { case 2
    then obtain m lg' where m: "np_loadtxt fs (os_path_join d f) = Inr m" "shape m = [4, 4]"
      and rest: "load_extrinsics_loop fs d rest (AList.update (strip4 f) m acc, Suc n)
                   = (Inr (extrinsics, n'), lg')"
      by (auto simp: Let_def split: sum.splits if_splits prod.splits)
    from Cons.IH(2)[OF rest] show ?case by (auto simp: dom_update) }
  { case 3
    then obtain m lg' where m: "np_loadtxt fs (os_path_join d f) = Inr m" "shape m = [4, 4]"
      and rest: "load_extrinsics_loop fs d rest (AList.update (strip4 f) m acc, Suc n)
                   = (Inr (extrinsics, n'), lg')"
      by (auto simp: Let_def split: sum.splits if_splits prod.splits)
    have m4: "is_4x4 m" using m by (intro shape_4_4) (auto dest: np_loadtxt_rectangular)
    have "\<forall>x \<in> snd ` set (AList.update (strip4 f) m acc). is_4x4 x"
      if "\<forall>x \<in> snd ` set acc. is_4x4 x"
      using that m4 set_update_subset[of "strip4 f" m acc] by force
    with Cons.IH(3)[OF rest] show ?case by blast }
  { case 4
    then obtain m lg' where m: "np_loadtxt fs (os_path_join d f) = Inr m" "shape m = [4, 4]"
      and rest: "load_extrinsics_loop fs d rest (AList.update (strip4 f) m acc, Suc n)
                   = (Inr (extrinsics, n'), lg')"
      by (auto simp: Let_def split: sum.splits if_splits prod.splits)
    from Cons.IH(4)[OF rest] m show ?case by simp }
qed

lemma load_extrinsics_Inr:
  assumes "fst (load_extrinsics_from_directory fs d) = Inr extrinsics"
  shows "distinct (map fst extrinsics)"
    and "\<forall>m \<in> snd ` set extrinsics. is_4x4 m"
    and "\<exists>names. os_listdir fs d = Inr names \<and>
           set (map fst extrinsics) = strip4 ` {f \<in> set names. endswith f ''.txt''}"
proof -
  from assms obtain names where names: "os_listdir fs d = Inr names"
    by (auto simp: load_extrinsics_from_directory_def Let_def split: sum.splits)
  let ?files = "filter (\<lambda>f. endswith f ''.txt'') names"
  have "distinct (map fst extrinsics) \<and> (\<forall>m \<in> snd ` set extrinsics. is_4x4 m) \<and>
        set (map fst extrinsics) = strip4 ` set ?files"
  proof (cases "?files = []")
    case True
    with assms names have "extrinsics = []"
      by (auto simp: load_extrinsics_from_directory_def Let_def)
    with True show ?thesis by simp
  next
    case False
    with assms names obtain n lg where
      loop: "load_extrinsics_loop fs d ?files ([], 0) = (Inr (extrinsics, n), lg)"
      by (auto simp: load_extrinsics_from_directory_def Let_def split: sum.splits prod.splits)
    from load_extrinsics_loop_Inr(1,2,3)[OF loop] show ?thesis by simp
  qed
  with names show "distinct (map fst extrinsics)"
    and "\<forall>m \<in> snd ` set extrinsics. is_4x4 m"
    and "\<exists>names. os_listdir fs d = Inr names \<and>
           set (map fst extrinsics) = strip4 ` {f \<in> set names. endswith f ''.txt''}"
    by auto
qed

lemma load_extrinsics_loop_bad_shape:
  assumes "f \<in> set files" and "np_loadtxt fs (os_path_join d f) = Inr m" and "shape m \<noteq> [4, 4]"
  shows "\<exists>e. fst (load_extrinsics_loop fs d files acc) = Inl e \<and>
           ((\<forall>f' \<in> set files. \<exists>m'. np_loadtxt fs (os_path_join d f') = Inr m') \<longrightarrow>
            (\<exists>f0 m0. f0 \<in> set files \<and> np_loadtxt fs (os_path_join d f0) = Inr m0 \<and>
               shape m0 \<noteq> [4, 4] \<and> e = ValueError_InvalidShape (os_path_join d f0) (shape m0)))"
  using assms
proof (induction files arbitrary: acc)
  case Nil
  then show ?case by simp
next
  case (Cons f' rest)
  obtain extrinsics n where acc: "acc = (extrinsics, n)" by (cases acc)
  show ?case
  proof (cases "np_loadtxt fs (os_path_join d f')")
    case (Inl e)
    then show ?thesis by (auto simp: acc)
  next
    case (Inr m')
    show ?thesis
    proof (cases "shape m' = [4, 4]")
      case True
      with Cons.prems Inr have "f \<in> set rest" by auto
      from Cons.IH[OF this Cons.prems(2,3), of "(AList.update (strip4 f') m' extrinsics, Suc n)"]
      obtain e where
        e: "fst (load_extrinsics_loop fs d rest (AList.update (strip4 f') m' extrinsics, Suc n))
              = Inl e" and
        named: "(\<forall>f' \<in> set rest. \<exists>m'. np_loadtxt fs (os_path_join d f') = Inr m') \<longrightarrow>
            (\<exists>f0 m0. f0 \<in> set rest \<and> np_loadtxt fs (os_path_join d f0) = Inr m0 \<and>
               shape m0 \<noteq> [4, 4] \<and> e = ValueError_InvalidShape (os_path_join d f0) (shape m0))"
        by blast
      from e Inr True have e': "fst (load_extrinsics_loop fs d (f' # rest) acc) = Inl e"
        by (auto simp: acc Let_def split: prod.splits)
      show ?thesis
      proof (intro exI[of _ e] conjI impI)
        show "fst (load_extrinsics_loop fs d (f' # rest) acc) = Inl e" by (rule e')
      next
        assume "\<forall>f'a \<in> set (f' # rest). \<exists>m'. np_loadtxt fs (os_path_join d f'a) = Inr m'"
        with named obtain f0 m0 where "f0 \<in> set rest"
          "np_loadtxt fs (os_path_join d f0) = Inr m0" "shape m0 \<noteq> [4, 4]"
          "e = ValueError_InvalidShape (os_path_join d f0) (shape m0)"
          by auto
        then show "\<exists>f0 m0. f0 \<in> set (f' # rest) \<and> np_loadtxt fs (os_path_join d f0) = Inr m0 \<and>
               shape m0 \<noteq> [4, 4] \<and> e = ValueError_InvalidShape (os_path_join d f0) (shape m0)"
          by (intro exI[of _ f0] exI[of _ m0]) simp
      qed
    next
      case False
      with Inr show ?thesis by (auto simp: acc Let_def)
    qed
  qed
qed

lemma load_extrinsics_loop_first_bad:
  assumes "\<forall>f \<in> set pre. \<exists>m. np_loadtxt fs (os_path_join d f) = Inr m \<and> shape m = [4, 4]"
    and "np_loadtxt fs (os_path_join d f0) = Inr m0" and "shape m0 \<noteq> [4, 4]"
  shows "fst (load_extrinsics_loop fs d (pre @ f0 # post) acc)
           = Inl (ValueError_InvalidShape (os_path_join d f0) (shape m0))"
  using assms(1)
proof (induction pre arbitrary: acc)
  case Nil
  obtain extrinsics n where acc: "acc = (extrinsics, n)" by (cases acc)
  from assms(2,3) show ?case by (simp add: acc Let_def)
next
  case (Cons f pre)
  obtain extrinsics n where acc: "acc = (extrinsics, n)" by (cases acc)
  from Cons.prems obtain m where m: "np_loadtxt fs (os_path_join d f) = Inr m" "shape m = [4, 4]"
    by auto
  from Cons.prems have "\<forall>f \<in> set pre. \<exists>m. np_loadtxt fs (os_path_join d f) = Inr m \<and> shape m = [4, 4]"
    by simp
  from Cons.IH[OF this, of "(AList.update (strip4 f) m extrinsics, Suc n)"] m show ?case
    by (auto simp: acc Let_def split: prod.splits)
qed

lemma filter_txt:
  "filter (\<lambda>f. endswith f ''.txt'') names = filter (\<lambda>f. \<exists>t. f = t @ ''.txt'') names"
  by (rule filter_cong) (auto simp: endswith_iff)

text \<open>
  C5, amended: when a scanned file of the extrinsics directory (a name ending in \<open>.txt\<close>)
  parses to an array whose shape is not \<open>(4, 4)\<close>, the run raises and leaves the file
  system as it was, whatever the mode. The exception is the \<open>ValueError\<close> that carries the
  path and the shape of that file when every scanned file listed before it loads as an
  array of shape \<open>(4, 4)\<close>.
\<close>

theorem C5_malformed_extrinsics_fatal:
  assumes "os_listdir fs (extrinsics_path a) = Inr names"
    and "filename \<in> set names" and "\<exists>t. filename = t @ ''.txt''"
    and "np_loadtxt fs (os_path_join (extrinsics_path a) filename) = Inr m"
    and "shape m \<noteq> [4, 4]"
  shows "(\<exists>e. outcome (convert_nuscenes_to_transforms lapack a fs) = Inl e) \<and>
         final_files (convert_nuscenes_to_transforms lapack a fs) = fs \<and>
         (\<forall>pre post.
            filter (\<lambda>f. \<exists>t. f = t @ ''.txt'') names = pre @ filename # post \<and>
            (\<forall>f \<in> set pre. \<exists>m'. np_loadtxt fs (os_path_join (extrinsics_path a) f) = Inr m' \<and>
                                 shape m' = [4, 4])
            \<longrightarrow> outcome (convert_nuscenes_to_transforms lapack a fs)
                  = Inl (ValueError_InvalidShape (os_path_join (extrinsics_path a) filename)
                           (shape m)))"
proof -
  let ?d = "extrinsics_path a"
  let ?files = "filter (\<lambda>f. endswith f ''.txt'') names"
  from assms(2,3) have mem: "filename \<in> set ?files" by (auto simp: endswith_iff)
  then have ne: "?files \<noteq> []" by (auto simp: filter_empty_conv)
  have lift: "outcome (convert_nuscenes_to_transforms lapack a fs) = Inl e \<and>
              final_files (convert_nuscenes_to_transforms lapack a fs) = fs"
    if "fst (load_extrinsics_loop fs ?d ?files ([], 0)) = Inl e" for e
  proof -
    from that assms(1) ne have "fst (load_extrinsics_from_directory fs ?d) = Inl e"
      by (auto simp: load_extrinsics_from_directory_def Let_def split: prod.splits sum.splits)
    then show ?thesis
      by (auto simp: convert_nuscenes_to_transforms_def outcome_def final_files_def Let_def
               split: prod.splits sum.splits)
  qed
  from load_extrinsics_loop_bad_shape[OF mem assms(4,5), of "([], 0)"] obtain e where
    e: "fst (load_extrinsics_loop fs ?d ?files ([], 0)) = Inl e"
    by blast
  have first: "outcome (convert_nuscenes_to_transforms lapack a fs)
                  = Inl (ValueError_InvalidShape (os_path_join ?d filename) (shape m))"
    if split: "filter (\<lambda>f. \<exists>t. f = t @ ''.txt'') names = pre @ filename # post"
    and pre: "\<forall>f \<in> set pre. \<exists>m'. np_loadtxt fs (os_path_join ?d f) = Inr m' \<and> shape m' = [4, 4]"
    for pre post
  proof -
    from split have files: "?files = pre @ filename # post" by (simp add: filter_txt)
    from load_extrinsics_loop_first_bad[OF pre assms(4,5), of post "([], 0)"] files
    have "fst (load_extrinsics_loop fs ?d ?files ([], 0))
            = Inl (ValueError_InvalidShape (os_path_join ?d filename) (shape m))"
      by simp
    from lift[OF this] show ?thesis by simp
  qed
  from lift[OF e] first show ?thesis by blast
qed

theorem C5_malformed_extrinsics_fatal_witness:
  "os_listdir malformed_fs (extrinsics_path nuscenes_args) = Inr [''000_0.txt'', ''000_1.txt'']
   \<and> np_loadtxt malformed_fs (os_path_join (extrinsics_path nuscenes_args) ''000_0.txt'')
       = Inr (Arr2 [[1, 0, 0, 1], [0, 1, 0, 2], [0, 0, 1, 3], [0, 0, 0, 1]])
   \<and> np_loadtxt malformed_fs (os_path_join (extrinsics_path nuscenes_args) ''000_1.txt'')
       = Inr (Arr2 [[1, 0, 0], [0, 1, 0], [0, 0, 1]])
   \<and> shape (Arr2 [[1, 0, 0], [0, 1, 0], [0, 0, 1::rat]]) = [3, 3]
   \<and> os_path_join (extrinsics_path nuscenes_args) ''000_1.txt'' = ''ext/000_1.txt''
   \<and> outcome (convert_nuscenes_to_transforms lapack_raises nuscenes_args malformed_fs)
       = Inl (ValueError_InvalidShape ''ext/000_1.txt'' [3, 3])
   \<and> final_files (convert_nuscenes_to_transforms lapack_raises nuscenes_args malformed_fs)
       = malformed_fs"
proof -
  have h1: "os_listdir malformed_fs (extrinsics_path nuscenes_args)
              = Inr [''000_0.txt'', ''000_1.txt'']"
    by code_simp
  have h2: "''000_1.txt'' \<in> set [''000_0.txt'', ''000_1.txt'']" by simp
  have h3: "\<exists>t. ''000_1.txt'' = t @ ''.txt''" by (rule exI[of _ "''000_1''"]) simp
  have g: "np_loadtxt malformed_fs (os_path_join (extrinsics_path nuscenes_args) ''000_0.txt'')
              = Inr (Arr2 [[1, 0, 0, 1], [0, 1, 0, 2], [0, 0, 1, 3], [0, 0, 0, 1]])"
    by code_simp
  have h4: "np_loadtxt malformed_fs (os_path_join (extrinsics_path nuscenes_args) ''000_1.txt'')
              = Inr (Arr2 [[1, 0, 0], [0, 1, 0], [0, 0, 1]])"
    by code_simp
  have s: "shape (Arr2 [[1, 0, 0], [0, 1, 0], [0, 0, 1::rat]]) = [3, 3]"
    by (simp add: ncols_def)
  then have h5: "shape (Arr2 [[1, 0, 0], [0, 1, 0], [0, 0, 1::rat]]) \<noteq> [4, 4]" by simp
  have j: "os_path_join (extrinsics_path nuscenes_args) ''000_1.txt'' = ''ext/000_1.txt''"
    by code_simp
  have f: "filter (\<lambda>f. \<exists>t. f = t @ ''.txt'') [''000_0.txt'', ''000_1.txt'']
             = [''000_0.txt''] @ ''000_1.txt'' # []"
    by (simp flip: filter_txt) code_simp
  have p: "\<forall>f \<in> set [''000_0.txt''].
             \<exists>m'. np_loadtxt malformed_fs (os_path_join (extrinsics_path nuscenes_args) f) = Inr m' \<and>
                   shape m' = [4, 4]"
    using g by (simp add: ncols_def)
  from C5_malformed_extrinsics_fatal[OF h1 h2 h3 h4 h5, of lapack_raises] f p
  have "outcome (convert_nuscenes_to_transforms lapack_raises nuscenes_args malformed_fs)
          = Inl (ValueError_InvalidShape (os_path_join (extrinsics_path nuscenes_args) ''000_1.txt'')
                   (shape (Arr2 [[1, 0, 0], [0, 1, 0], [0, 0, 1::rat]])))
        \<and> final_files (convert_nuscenes_to_transforms lapack_raises nuscenes_args malformed_fs)
            = malformed_fs"
    by blast
  with h1 g h4 s j show ?thesis by simp
qed

text \<open>
  With a file that is not numeric listed before the file of shape \<open>(3, 3)\<close>, the run stops
  at the first file with the error of \<open>np.loadtxt\<close>, which names neither the second file
  nor its shape.
\<close>

theorem C5_malformed_extrinsics_fatal_counterexample:
  "os_listdir unparsable_fs (extrinsics_path nuscenes_args) = Inr [''000_0.txt'', ''000_1.txt'']
   \<and> np_loadtxt unparsable_fs (os_path_join (extrinsics_path nuscenes_args) ''000_1.txt'')
       = Inr (Arr2 [[1, 0, 0], [0, 1, 0], [0, 0, 1]])
   \<and> shape (Arr2 [[1, 0, 0], [0, 1, 0], [0, 0, 1::rat]]) = [3, 3]
   \<and> outcome (convert_nuscenes_to_transforms lapack_raises nuscenes_args unparsable_fs)
       = Inl (ValueError_Numpy ''could not convert string to float64'')
   \<and> outcome (convert_nuscenes_to_transforms lapack_raises nuscenes_args unparsable_fs)
       \<noteq> Inl (ValueError_InvalidShape ''ext/000_1.txt'' [3, 3])"
  by code_simp

subsection \<open>The frame loop\<close>

lemma process_frames_all2:
  "process_frames lapack a extrinsics cfs all_intrinsics keys acc = Inr frs \<Longrightarrow>
     \<exists>new. frs = acc @ new \<and>
       list_all2 (\<lambda>k fr. process_frame lapack a extrinsics cfs all_intrinsics k = Inr fr) keys new"
proof (induction keys arbitrary: acc)
  case Nil
  then show ?case by simp
next
  case (Cons k rest)
  from Cons.prems obtain fr where fr: "process_frame lapack a extrinsics cfs all_intrinsics k = Inr fr"
    and rest: "process_frames lapack a extrinsics cfs all_intrinsics rest (acc @ [fr]) = Inr frs"
    by (auto split: sum.splits)
  from Cons.IH[OF rest] fr show ?case by auto
qed

lemma process_frames_error:
  "k \<in> set keys \<Longrightarrow> process_frame lapack a extrinsics cfs all_intrinsics k = Inl e \<Longrightarrow>
     \<exists>e'. process_frames lapack a extrinsics cfs all_intrinsics keys acc = Inl e'"
proof (induction keys arbitrary: acc)
  case Nil
  then show ?case by simp
next
  case (Cons k' rest)
  then show ?case by (cases "process_frame lapack a extrinsics cfs all_intrinsics k'") auto
qed

lemma process_frame_Inr:
  assumes "process_frame lapack a extrinsics cfs all_intrinsics k = Inr fr"
  shows "\<exists>raw. map_of extrinsics k = Some raw \<and> align lapack cfs raw = Inr (transform_matrix fr) \<and>
           file_path fr = image_path_of a k \<and>
           (multi_camera a \<longrightarrow>
              (\<exists>c ci. camera_component k = Some c \<and> map_of all_intrinsics c = Some (Some ci) \<and>
                 per_frame fr = Some \<lparr>fl_x = fx ci, fl_y = fy ci, c_x = cx ci, c_y = cy ci,
                                       im_w = width ci, im_h = height ci\<rparr>))"
  using assms
  by (auto simp: process_frame_def camera_component_def Let_def
           split: option.splits sum.splits if_splits)

subsection \<open>A successful run\<close>
lemma convert_success:
  assumes "outcome (convert_nuscenes_to_transforms lapack a fs) = Inr True"
  shows "\<exists>extrinsics lg1 all_intrinsics lgi frames_list.
     load_extrinsics_from_directory fs (extrinsics_path a) = (Inr extrinsics, lg1) \<and>
     extrinsics \<noteq> [] \<and> multi_camera a \<and>
     load_all_intrinsics fs (intrinsics_path a) (arg_width a) (arg_height a)
        (sort (find_camera_ids (map fst extrinsics) [])) [] = (Inr all_intrinsics, lgi) \<and>
     process_frames lapack a extrinsics (fst (select_camera_front_start a fs extrinsics))
        all_intrinsics (sort (map fst extrinsics)) [] = Inr frames_list \<and>
     final_files (convert_nuscenes_to_transforms lapack a fs) (output_path a) =
        Some (TransformsJson \<lparr>shared = None, frames = frames_list\<rparr>) \<and>
     set (snd (select_camera_front_start a fs extrinsics))
        \<subseteq> set (logged (convert_nuscenes_to_transforms lapack a fs))"
  using assms
  unfolding convert_nuscenes_to_transforms_def outcome_def final_files_def logged_def Let_def
  by (auto split: sum.splits prod.splits if_splits dest: json_dump_Inr)

lemma align_Some_Inr:
  "align lapack (Some reference) raw = Inr m \<longleftrightarrow>
     (\<exists>reference_inverse. np_linalg_inv lapack reference = Inr reference_inverse \<and>
        np_matmul reference_inverse raw = Inr m)"
  by (auto simp: align_def split: sum.splits)

lemma sort_distinct_sorted_list_of_set:
  "distinct xs \<Longrightarrow> sort xs = sorted_list_of_set (set xs)"
  by (simp add: sorted_list_of_set_sort_remdups distinct_remdups_id)

lemma convert_success_frames:
  assumes "outcome (convert_nuscenes_to_transforms lapack a fs) = Inr True"
    and "fst (load_extrinsics_from_directory fs (extrinsics_path a)) = Inr extrinsics"
  shows "\<exists>doc all_intrinsics.
           final_files (convert_nuscenes_to_transforms lapack a fs) (output_path a)
             = Some (TransformsJson doc) \<and>
           list_all2 (\<lambda>k fr. process_frame lapack a extrinsics
                        (fst (select_camera_front_start a fs extrinsics)) all_intrinsics k = Inr fr)
             (sort (map fst extrinsics)) (frames doc)"
proof -
  from convert_success[OF assms(1)] assms(2) obtain all_intrinsics frames_list where
    pf: "process_frames lapack a extrinsics (fst (select_camera_front_start a fs extrinsics))
           all_intrinsics (sort (map fst extrinsics)) [] = Inr frames_list" and
    final: "final_files (convert_nuscenes_to_transforms lapack a fs) (output_path a) =
              Some (TransformsJson \<lparr>shared = None, frames = frames_list\<rparr>)"
    by auto
  from process_frames_all2[OF pf] final show ?thesis by auto
qed

subsection \<open>Frame order and image paths\<close>

text \<open>
  C8: a successful run writes one frame for each key of the extrinsics, the keys being
  pairwise different, and the frames follow the ascending order of the keys: the i-th frame
  is the frame of the i-th key. That order is the sorted list of the set of keys, which are
  the names ending in \<open>.txt\<close> of the directory without that ending, so it does not depend
  on the order in which the directory is listed.
\<close>

theorem C8_frame_order:
  assumes "outcome (convert_nuscenes_to_transforms lapack a fs) = Inr True"
    and "fst (load_extrinsics_from_directory fs (extrinsics_path a)) = Inr extrinsics"
    and "os_listdir fs (extrinsics_path a) = Inr names"
  shows "\<exists>doc.
           final_files (convert_nuscenes_to_transforms lapack a fs) (output_path a)
             = Some (TransformsJson doc) \<and>
           distinct (map fst extrinsics) \<and>
           length (frames doc) = length extrinsics \<and>
           list_all2 (\<lambda>key fr. file_path fr = image_path_of a key)
             (sort (map fst extrinsics)) (frames doc) \<and>
           sort (map fst extrinsics)
             = sorted_list_of_set (strip4 ` {f \<in> set names. endswith f ''.txt''})"
proof -
  from convert_success_frames[OF assms(1,2)] obtain doc all_intrinsics where
    doc: "final_files (convert_nuscenes_to_transforms lapack a fs) (output_path a)
            = Some (TransformsJson doc)" and
    all2: "list_all2 (\<lambda>k fr. process_frame lapack a extrinsics
                        (fst (select_camera_front_start a fs extrinsics)) all_intrinsics k = Inr fr)
             (sort (map fst extrinsics)) (frames doc)"
    by blast
  have d: "distinct (map fst extrinsics)" by (rule load_extrinsics_Inr(1)[OF assms(2)])
  from load_extrinsics_Inr(3)[OF assms(2)] assms(3) have
    keys: "set (map fst extrinsics) = strip4 ` {f \<in> set names. endswith f ''.txt''}"
    by auto
  from all2 have len: "length (frames doc) = length extrinsics"
    by (auto dest: list_all2_lengthD)
  from all2 have paths: "list_all2 (\<lambda>key fr. file_path fr = image_path_of a key)
             (sort (map fst extrinsics)) (frames doc)"
    by (rule list_all2_mono) (auto dest: process_frame_Inr)
  from sort_distinct_sorted_list_of_set[OF d] keys have
    "sort (map fst extrinsics) = sorted_list_of_set (strip4 ` {f \<in> set names. endswith f ''.txt''})"
    by simp
  with doc d len paths show ?thesis by blast
qed

theorem C8_frame_order_witness:
  "outcome (convert_nuscenes_to_transforms lapack_raises nuscenes_args nuscenes_fs) = Inr True
   \<and> fst (load_extrinsics_from_directory nuscenes_fs (extrinsics_path nuscenes_args))
       = Inr nuscenes_extrinsics
   \<and> os_listdir nuscenes_fs (extrinsics_path nuscenes_args)
       = Inr [''001_0.txt'', ''000_1.txt'', ''000_0.txt'', ''notes.md'']
   \<and> sort (map fst nuscenes_extrinsics) = [''000_0'', ''000_1'', ''001_0'']
   \<and> (\<exists>doc.
           final_files (convert_nuscenes_to_transforms lapack_raises nuscenes_args nuscenes_fs)
             (output_path nuscenes_args) = Some (TransformsJson doc) \<and>
           length (frames doc) = 3 \<and>
           list_all2 (\<lambda>key fr. file_path fr = image_path_of nuscenes_args key)
             [''000_0'', ''000_1'', ''001_0''] (frames doc))"
proof -
  have h1: "outcome (convert_nuscenes_to_transforms lapack_raises nuscenes_args nuscenes_fs) = Inr True"
    by code_simp
  have h2: "fst (load_extrinsics_from_directory nuscenes_fs (extrinsics_path nuscenes_args))
              = Inr nuscenes_extrinsics"
    by code_simp
  have h3: "os_listdir nuscenes_fs (extrinsics_path nuscenes_args)
              = Inr [''001_0.txt'', ''000_1.txt'', ''000_0.txt'', ''notes.md'']"
    by code_simp
  have s: "sort (map fst nuscenes_extrinsics) = [''000_0'', ''000_1'', ''001_0'']"
    by code_simp
  have l: "length nuscenes_extrinsics = 3" by (simp add: nuscenes_extrinsics_def)
  from C8_frame_order[OF h1 h2 h3] s l h1 h2 h3 show ?thesis by auto
qed

text \<open>
  C9, amended: in a successful run the \<open>file_path\<close> of the frame of a key is
  \<open>{images_dir}/{key}{image_ext}\<close> when \<open>images_dir\<close> is a non-empty string, and
  \<open>images/{key}{image_ext}\<close> when \<open>images_dir\<close> is \<open>None\<close> or the empty string.
\<close>

theorem C9_file_path:
  assumes "outcome (convert_nuscenes_to_transforms lapack a fs) = Inr True"
    and "fst (load_extrinsics_from_directory fs (extrinsics_path a)) = Inr extrinsics"
  shows "\<exists>doc.
           final_files (convert_nuscenes_to_transforms lapack a fs) (output_path a)
             = Some (TransformsJson doc) \<and>
           list_all2
             (\<lambda>key fr. file_path fr =
                (case images_dir a of
                   Some d \<Rightarrow> if d \<noteq> [] then d @ ''/'' @ key @ image_ext a
                            else ''images/'' @ key @ image_ext a
                 | None \<Rightarrow> ''images/'' @ key @ image_ext a))
             (sort (map fst extrinsics)) (frames doc)"
proof -
  from convert_success_frames[OF assms(1,2)] obtain doc all_intrinsics where
    doc: "final_files (convert_nuscenes_to_transforms lapack a fs) (output_path a)
            = Some (TransformsJson doc)" and
    all2: "list_all2 (\<lambda>k fr. process_frame lapack a extrinsics
                        (fst (select_camera_front_start a fs extrinsics)) all_intrinsics k = Inr fr)
             (sort (map fst extrinsics)) (frames doc)"
    by blast
  from all2 have "list_all2
             (\<lambda>key fr. file_path fr =
                (case images_dir a of
                   Some d \<Rightarrow> if d \<noteq> [] then d @ ''/'' @ key @ image_ext a
                            else ''images/'' @ key @ image_ext a
                 | None \<Rightarrow> ''images/'' @ key @ image_ext a))
             (sort (map fst extrinsics)) (frames doc)"
    by (rule list_all2_mono) (auto dest!: process_frame_Inr simp: image_path_of_def)
  with doc show ?thesis by blast
qed

theorem C9_file_path_witness:
  "outcome (convert_nuscenes_to_transforms lapack_raises nuscenes_args nuscenes_fs) = Inr True
   \<and> fst (load_extrinsics_from_directory nuscenes_fs (extrinsics_path nuscenes_args))
       = Inr nuscenes_extrinsics
   \<and> (\<exists>doc.
           final_files (convert_nuscenes_to_transforms lapack_raises nuscenes_args nuscenes_fs)
             (output_path nuscenes_args) = Some (TransformsJson doc) \<and>
           list_all2 (\<lambda>key fr. file_path fr = ''images'' @ ''/'' @ key @ ''.jpg'')
             (sort (map fst nuscenes_extrinsics)) (frames doc))"
proof -
  have h1: "outcome (convert_nuscenes_to_transforms lapack_raises nuscenes_args nuscenes_fs) = Inr True"
    by code_simp
  have h2: "fst (load_extrinsics_from_directory nuscenes_fs (extrinsics_path nuscenes_args))
              = Inr nuscenes_extrinsics"
    by code_simp
  from C9_file_path[OF h1 h2] h1 h2 show ?thesis by (simp add: nuscenes_args_def)
qed

text \<open>
  With the empty string for \<open>images_dir\<close> the path of the first frame is
  \<open>images/000_0.jpg\<close>, which is not \<open>{images_dir}/{key}{image_ext}\<close>, that is
  \<open>/000_0.jpg\<close>.
\<close>

theorem C9_file_path_counterexample:
  "outcome (convert_nuscenes_to_transforms lapack_raises (nuscenes_args\<lparr>images_dir := Some ''''\<rparr>) nuscenes_fs)
     = Inr True
   \<and> map_option (\<lambda>n. case n of TransformsJson doc \<Rightarrow> map file_path (frames doc) | _ \<Rightarrow> [])
       (final_files
          (convert_nuscenes_to_transforms lapack_raises (nuscenes_args\<lparr>images_dir := Some ''''\<rparr>) nuscenes_fs)
          ''out.json'')
     = Some [''images/000_0.jpg'', ''images/000_1.jpg'', ''images/001_0.jpg'']
   \<and> ''images/000_0.jpg'' \<noteq> '''' @ ''/'' @ ''000_0'' @ ''.jpg''"
  by code_simp

subsection \<open>The reference pose\<close>

lemma sorted_Cons_Min: "sorted (x # xs) \<Longrightarrow> Min (set (x # xs)) = x"
  by (intro Min_eqI) auto

lemma first_frame_candidates_Cons:
  assumes "first_frame_candidates extrinsics = k0 # rest"
  shows "k0 = Min {k \<in> set (map fst extrinsics). endswith k ''_0''}"
    and "k0 \<in> set (map fst extrinsics)" and "endswith k0 ''_0''"
proof -
  have "sorted (first_frame_candidates extrinsics)"
    unfolding first_frame_candidates_def
    using sorted_filter[where f = "\<lambda>x. x" and xs = "sort (map fst extrinsics)"
                          and P = "\<lambda>name. endswith name ''_0''"]
    by simp
  with assms have "Min (set (first_frame_candidates extrinsics)) = k0"
    by (simp only: sorted_Cons_Min)
  moreover have "set (first_frame_candidates extrinsics)
                   = {k \<in> set (map fst extrinsics). endswith k ''_0''}"
    by (auto simp: first_frame_candidates_def)
  ultimately show "k0 = Min {k \<in> set (map fst extrinsics). endswith k ''_0''}" by simp
  have "k0 \<in> set (first_frame_candidates extrinsics)" using assms by simp
  then show "k0 \<in> set (map fst extrinsics)" and "endswith k0 ''_0''"
    by (auto simp: first_frame_candidates_def)
qed

lemma first_frame_candidates_Nil:
  "first_frame_candidates extrinsics = [] \<longleftrightarrow>
     {k \<in> set (map fst extrinsics). endswith k ''_0''} = {}"
  by (auto simp: first_frame_candidates_def filter_empty_conv)

lemma select_camera_front_start_suffix:
  assumes "os_path_exists fs (extrinsics_path a)"
  shows "fst (select_camera_front_start a fs extrinsics) =
           (if {k \<in> set (map fst extrinsics). endswith k ''_0''} = {} then None
            else map_of extrinsics (Min {k \<in> set (map fst extrinsics). endswith k ''_0''}))"
proof (cases "first_frame_candidates extrinsics")
  case Nil
  then show ?thesis
    using assms first_frame_candidates_Nil[of extrinsics]
    by (simp add: select_camera_front_start_def)
next
  case (Cons k0 rest)
  from first_frame_candidates_Cons[OF Cons] have
    k0: "k0 = Min {k \<in> set (map fst extrinsics). endswith k ''_0''}" and
    ne: "{k \<in> set (map fst extrinsics). endswith k ''_0''} \<noteq> {}"
    by blast+
  have "(if {k \<in> set (map fst extrinsics). endswith k ''_0''} = {} then None
            else map_of extrinsics (Min {k \<in> set (map fst extrinsics). endswith k ''_0''}))
          = map_of extrinsics k0"
    by (simp only: ne if_False k0[symmetric])
  moreover have "fst (select_camera_front_start a fs extrinsics) = map_of extrinsics k0"
    using assms Cons by (auto simp: select_camera_front_start_def split: option.splits)
  ultimately show ?thesis by simp
qed

lemma load_extrinsics_path_exists:
  "fst (load_extrinsics_from_directory fs d) = Inr extrinsics \<Longrightarrow> os_path_exists fs d"
  by (auto simp: load_extrinsics_from_directory_def os_listdir_def os_path_exists_def Let_def
           split: sum.splits option.splits node.splits)

lemma convert_success_keys:
  assumes "outcome (convert_nuscenes_to_transforms lapack a fs) = Inr True"
    and "fst (load_extrinsics_from_directory fs (extrinsics_path a)) = Inr extrinsics"
    and "key \<in> set (map fst extrinsics)"
  shows "\<exists>c. camera_component key = Some c"
proof -
  from convert_success_frames[OF assms(1,2)] obtain doc all_intrinsics where
    doc: "final_files (convert_nuscenes_to_transforms lapack a fs) (output_path a)
            = Some (TransformsJson doc)" and
    all2: "list_all2 (\<lambda>k fr. process_frame lapack a extrinsics
                        (fst (select_camera_front_start a fs extrinsics)) all_intrinsics k = Inr fr)
             (sort (map fst extrinsics)) (frames doc)"
    by blast
  from convert_success[OF assms(1)] have mc: "multi_camera a" by blast
  from assms(3) have "key \<in> set (sort (map fst extrinsics))" by simp
  then obtain i where "i < length (sort (map fst extrinsics))"
    "sort (map fst extrinsics) ! i = key"
    by (auto simp: in_set_conv_nth simp del: set_sort length_sort)
  with all2 have "process_frame lapack a extrinsics
                        (fst (select_camera_front_start a fs extrinsics)) all_intrinsics key
                    = Inr (frames doc ! i)"
    by (auto dest: list_all2_nthD)
  from process_frame_Inr[OF this] mc show ?thesis by auto
qed

text \<open>
  C2, amended: the reference pose is the matrix of the least key, in the lexicographic
  order, among exactly the keys that end in \<open>_0\<close>, and there is none when no key ends in
  \<open>_0\<close>. For a key with a camera component (the second of exactly two parts of the key
  split at \<open>_\<close>), ending in \<open>_0\<close> is the same as having the camera component \<open>0\<close>; so
  when every key has a camera component, the reference pose is the matrix of the least
  key among exactly the keys whose camera component is \<open>0\<close>.
\<close>

theorem C2_reference_key:
  assumes "fst (load_extrinsics_from_directory fs (extrinsics_path a)) = Inr extrinsics"
  shows "fst (select_camera_front_start a fs extrinsics) =
           (if {k \<in> set (map fst extrinsics). \<exists>t. k = t @ ''_0''} = {} then None
            else map_of extrinsics (Min {k \<in> set (map fst extrinsics). \<exists>t. k = t @ ''_0''})) \<and>
         (\<forall>k c. camera_component k = Some c \<longrightarrow> ((\<exists>t. k = t @ ''_0'') \<longleftrightarrow> c = ''0'')) \<and>
         ((\<forall>k \<in> set (map fst extrinsics). camera_component k \<noteq> None) \<longrightarrow>
            fst (select_camera_front_start a fs extrinsics) =
              (if {k \<in> set (map fst extrinsics). camera_component k = Some ''0''} = {} then None
               else map_of extrinsics
                      (Min {k \<in> set (map fst extrinsics). camera_component k = Some ''0''})))"
proof -
  have suffix_sets: "{k \<in> set (map fst extrinsics). endswith k ''_0''}
                       = {k \<in> set (map fst extrinsics). \<exists>t. k = t @ ''_0''}"
    by (auto simp: endswith_iff)
  from select_camera_front_start_suffix[OF load_extrinsics_path_exists[OF assms], of extrinsics]
  have sel: "fst (select_camera_front_start a fs extrinsics) =
           (if {k \<in> set (map fst extrinsics). \<exists>t. k = t @ ''_0''} = {} then None
            else map_of extrinsics (Min {k \<in> set (map fst extrinsics). \<exists>t. k = t @ ''_0''}))"
    by (simp only: suffix_sets)
  have iff: "(\<exists>t. k = t @ ''_0'') \<longleftrightarrow> c = ''0''" if "camera_component k = Some c" for k c
    using endswith_camera_0[OF that] by (simp add: endswith_iff)
  have wf: "fst (select_camera_front_start a fs extrinsics) =
              (if {k \<in> set (map fst extrinsics). camera_component k = Some ''0''} = {} then None
               else map_of extrinsics
                      (Min {k \<in> set (map fst extrinsics). camera_component k = Some ''0''}))"
    if all: "\<forall>k \<in> set (map fst extrinsics). camera_component k \<noteq> None"
  proof -
    have "(\<exists>t. k = t @ ''_0'') \<longleftrightarrow> camera_component k = Some ''0''"
      if "k \<in> set (map fst extrinsics)" for k
    proof -
      from all that obtain c where c: "camera_component k = Some c" by auto
      from iff[OF c] c show ?thesis by simp
    qed
    then have "{k \<in> set (map fst extrinsics). \<exists>t. k = t @ ''_0''}
                 = {k \<in> set (map fst extrinsics). camera_component k = Some ''0''}"
      by blast
    with sel show ?thesis by (simp only:)
  qed
  from sel iff wf show ?thesis by blast
qed

theorem C2_reference_key_witness:
  "fst (load_extrinsics_from_directory nuscenes_fs (extrinsics_path nuscenes_args))
     = Inr nuscenes_extrinsics
   \<and> list_all (\<lambda>k. camera_component k \<noteq> None) (map fst nuscenes_extrinsics)
   \<and> filter (\<lambda>k. camera_component k = Some ''0'') (sort (map fst nuscenes_extrinsics))
       = [''000_0'', ''001_0'']
   \<and> fst (select_camera_front_start nuscenes_args nuscenes_fs nuscenes_extrinsics)
       = Some (Arr2 [[1, 0, 0, 1], [0, 1, 0, 2], [0, 0, 1, 3], [0, 0, 0, 1]])
   \<and> fst (select_camera_front_start nuscenes_args nuscenes_fs nuscenes_extrinsics)
       = (if {k \<in> set (map fst nuscenes_extrinsics). camera_component k = Some ''0''} = {}
          then None
          else map_of nuscenes_extrinsics
                 (Min {k \<in> set (map fst nuscenes_extrinsics). camera_component k = Some ''0''}))"
proof -
  have h: "fst (load_extrinsics_from_directory nuscenes_fs (extrinsics_path nuscenes_args))
             = Inr nuscenes_extrinsics"
    by code_simp
  have l: "list_all (\<lambda>k. camera_component k \<noteq> None) (map fst nuscenes_extrinsics)"
    by code_simp
  then have all: "\<forall>k \<in> set (map fst nuscenes_extrinsics). camera_component k \<noteq> None"
    by (simp only: list_all_iff)
  have f: "filter (\<lambda>k. camera_component k = Some ''0'') (sort (map fst nuscenes_extrinsics))
             = [''000_0'', ''001_0'']"
    by code_simp
  have s: "fst (select_camera_front_start nuscenes_args nuscenes_fs nuscenes_extrinsics)
             = Some (Arr2 [[1, 0, 0, 1], [0, 1, 0, 2], [0, 0, 1, 3], [0, 0, 0, 1]])"
    by code_simp
  from C2_reference_key[OF h] all have
    "fst (select_camera_front_start nuscenes_args nuscenes_fs nuscenes_extrinsics)
       = (if {k \<in> set (map fst nuscenes_extrinsics). camera_component k = Some ''0''} = {}
          then None
          else map_of nuscenes_extrinsics
                 (Min {k \<in> set (map fst nuscenes_extrinsics). camera_component k = Some ''0''}))"
    by blast
  with h l f s show ?thesis by blast
qed

text \<open>
  A key of three parts that ends in \<open>_0\<close> has no camera component and is chosen all the
  same: with the keys \<open>0_1_0\<close> and \<open>1_0\<close> the only key whose camera component is \<open>0\<close> is
  \<open>1_0\<close>, and the reference pose is the matrix of \<open>0_1_0\<close>, which the log names. The
  frame loop then stops at \<open>0_1_0\<close> with an \<open>AssertionError\<close>.
\<close>

theorem C2_reference_key_counterexample:
  "fst (load_extrinsics_from_directory stray_fs (extrinsics_path nuscenes_args))
     = Inr stray_extrinsics
   \<and> camera_component ''0_1_0'' = None
   \<and> filter (\<lambda>k. camera_component k = Some ''0'') (sort (map fst stray_extrinsics)) = [''1_0'']
   \<and> map_of stray_extrinsics ''1_0''
       = Some (Arr2 [[1, 0, 0, 1], [0, 1, 0, 2], [0, 0, 1, 3], [0, 0, 0, 1]])
   \<and> select_camera_front_start nuscenes_args stray_fs stray_extrinsics
       = (Some (Arr2 [[1, 0, 0, 5], [0, 1, 0, 6], [0, 0, 1, 7], [0, 0, 0, 1]]),
          [(INFO, Applying_camera_alignment ''0_1_0'')])
   \<and> fst (select_camera_front_start nuscenes_args stray_fs stray_extrinsics)
       \<noteq> map_of stray_extrinsics ''1_0''
   \<and> outcome (convert_nuscenes_to_transforms lapack_raises nuscenes_args stray_fs)
       = Inl (AssertionError (Some ''0_1_0''))"
  by code_simp

subsection \<open>The inverse of a 4 by 4 matrix\<close>







subsection \<open>The aligned matrices, entry by entry\<close>








subsection \<open>Single-camera mode\<close>

lemma load_extrinsics_loop_log:
  "load_extrinsics_loop fs d files acc = (r, lg) \<Longrightarrow>
     list_all (\<lambda>(l, m). \<not> intrinsics_message m) lg"
proof (induction files arbitrary: acc r lg)
  case Nil
  then show ?case by simp
next
  case (Cons f rest)
  obtain extrinsics n where acc: "acc = (extrinsics, n)" by (cases acc)
  show ?case
  proof (cases "np_loadtxt fs (os_path_join d f)")
    case (Inl e)
    with Cons.prems show ?thesis by (simp add: acc)
  next
    case (Inr m)
    show ?thesis
    proof (cases "shape m = [4, 4]")
      case True
      obtain r' lg' where rest:
        "load_extrinsics_loop fs d rest (AList.update (strip4 f) m extrinsics, Suc n) = (r', lg')"
        by (cases "load_extrinsics_loop fs d rest (AList.update (strip4 f) m extrinsics, Suc n)")
      from Cons.prems Inr True rest have "lg = (INFO, Loaded_extrinsics_for (strip4 f)) # lg'"
        by (simp add: acc Let_def)
      with Cons.IH[OF rest] show ?thesis by simp
    next
      case False
      with Cons.prems Inr show ?thesis by (simp add: acc Let_def)
    qed
  qed
qed

lemma load_extrinsics_log:
  "list_all (\<lambda>(l, m). \<not> intrinsics_message m) (snd (load_extrinsics_from_directory fs d))"
proof (cases "os_listdir fs d")
  case (Inl e)
  then show ?thesis by (simp add: load_extrinsics_from_directory_def)
next
  case (Inr names)
  let ?files = "filter (\<lambda>f. endswith f ''.txt'') names"
  obtain r lg where loop: "load_extrinsics_loop fs d ?files ([], 0) = (r, lg)"
    by (cases "load_extrinsics_loop fs d ?files ([], 0)")
  from load_extrinsics_loop_log[OF loop] have "list_all (\<lambda>(l, m). \<not> intrinsics_message m) lg" .
  with Inr loop show ?thesis
    by (cases r) (auto simp: load_extrinsics_from_directory_def Let_def)
qed

lemma load_extrinsics_empty_log:
  assumes "fst (load_extrinsics_from_directory fs d) = Inr []"
  shows "snd (load_extrinsics_from_directory fs d) =
           [(INFO, Scanning_extrinsics_directory d), (ERROR, No_extrinsics_files_found d)]"
proof -
  from load_extrinsics_Inr(3)[OF assms] obtain names where
    names: "os_listdir fs d = Inr names" and
    "strip4 ` {f \<in> set names. endswith f ''.txt''} = {}"
    by auto
  then have "filter (\<lambda>f. endswith f ''.txt'') names = []"
    by (auto simp: filter_empty_conv)
  with names show ?thesis
    by (simp add: load_extrinsics_from_directory_def)
qed

text \<open>
  C7, amended: a run in single-camera mode never loads intrinsics and never writes a
  document. It raises \<open>NotImplementedError\<close> once the extrinsics have been loaded and are
  not empty; when loading the extrinsics raises, that exception is the outcome of the run;
  and when no extrinsics are found the call returns \<open>False\<close> after logging, at the level
  \<open>ERROR\<close>, that no extrinsics files were found and that no extrinsics data was loaded. The
  log of the run is the line that announces the loading, the log of the loader and, when no
  extrinsics are found, the second error.
\<close>

theorem C7_single_camera:
  assumes "\<not> multi_camera a"
  shows "outcome (convert_nuscenes_to_transforms lapack a fs) =
           (case fst (load_extrinsics_from_directory fs (extrinsics_path a)) of
              Inl e \<Rightarrow> Inl e
            | Inr extrinsics \<Rightarrow> if extrinsics = [] then Inr False else Inl NotImplementedError) \<and>
         final_files (convert_nuscenes_to_transforms lapack a fs) = fs \<and>
         list_all (\<lambda>(l, m). \<not> intrinsics_message m)
           (logged (convert_nuscenes_to_transforms lapack a fs)) \<and>
         logged (convert_nuscenes_to_transforms lapack a fs) =
           (INFO, Loading_extrinsics_from (extrinsics_path a))
             # snd (load_extrinsics_from_directory fs (extrinsics_path a))
             @ (if fst (load_extrinsics_from_directory fs (extrinsics_path a)) = Inr []
                then [(ERROR, No_extrinsics_data_loaded)] else []) \<and>
         (fst (load_extrinsics_from_directory fs (extrinsics_path a)) = Inr [] \<longrightarrow>
            logged (convert_nuscenes_to_transforms lapack a fs) =
              [(INFO, Loading_extrinsics_from (extrinsics_path a)),
               (INFO, Scanning_extrinsics_directory (extrinsics_path a)),
               (ERROR, No_extrinsics_files_found (extrinsics_path a)),
               (ERROR, No_extrinsics_data_loaded)])"
proof -
  obtain r lg where ld: "load_extrinsics_from_directory fs (extrinsics_path a) = (r, lg)"
    by (cases "load_extrinsics_from_directory fs (extrinsics_path a)")
  from load_extrinsics_log[of fs "extrinsics_path a"] ld
  have lg: "list_all (\<lambda>(l, m). \<not> intrinsics_message m) lg" by simp
  have main: "outcome (convert_nuscenes_to_transforms lapack a fs) =
           (case fst (load_extrinsics_from_directory fs (extrinsics_path a)) of
              Inl e \<Rightarrow> Inl e
            | Inr extrinsics \<Rightarrow> if extrinsics = [] then Inr False else Inl NotImplementedError) \<and>
         final_files (convert_nuscenes_to_transforms lapack a fs) = fs \<and>
         list_all (\<lambda>(l, m). \<not> intrinsics_message m)
           (logged (convert_nuscenes_to_transforms lapack a fs)) \<and>
         logged (convert_nuscenes_to_transforms lapack a fs) =
           (INFO, Loading_extrinsics_from (extrinsics_path a))
             # snd (load_extrinsics_from_directory fs (extrinsics_path a))
             @ (if fst (load_extrinsics_from_directory fs (extrinsics_path a)) = Inr []
                then [(ERROR, No_extrinsics_data_loaded)] else [])"
    using assms ld lg
    by (cases r)
       (simp_all add: convert_nuscenes_to_transforms_def outcome_def final_files_def logged_def)
  have "logged (convert_nuscenes_to_transforms lapack a fs) =
              [(INFO, Loading_extrinsics_from (extrinsics_path a)),
               (INFO, Scanning_extrinsics_directory (extrinsics_path a)),
               (ERROR, No_extrinsics_files_found (extrinsics_path a)),
               (ERROR, No_extrinsics_data_loaded)]"
    if e: "fst (load_extrinsics_from_directory fs (extrinsics_path a)) = Inr []"
    using main load_extrinsics_empty_log[OF e] e by simp
  with main show ?thesis by blast
qed

theorem C7_single_camera_witness:
  "\<not> multi_camera (nuscenes_args\<lparr>multi_camera := False\<rparr>)
   \<and> outcome (convert_nuscenes_to_transforms lapack_raises (nuscenes_args\<lparr>multi_camera := False\<rparr>)
                nuscenes_fs)
       = Inl NotImplementedError
   \<and> final_files (convert_nuscenes_to_transforms lapack_raises
                     (nuscenes_args\<lparr>multi_camera := False\<rparr>) nuscenes_fs)
       = nuscenes_fs
   \<and> list_all (\<lambda>(l, m). \<not> intrinsics_message m)
        (logged (convert_nuscenes_to_transforms lapack_raises
                   (nuscenes_args\<lparr>multi_camera := False\<rparr>) nuscenes_fs))
   \<and> fst (load_extrinsics_from_directory empty_fs
             (extrinsics_path (nuscenes_args\<lparr>multi_camera := False\<rparr>))) = Inr []
   \<and> outcome (convert_nuscenes_to_transforms lapack_raises (nuscenes_args\<lparr>multi_camera := False\<rparr>)
                empty_fs)
       = Inr False
   \<and> final_files (convert_nuscenes_to_transforms lapack_raises
                     (nuscenes_args\<lparr>multi_camera := False\<rparr>) empty_fs)
       = empty_fs
   \<and> logged (convert_nuscenes_to_transforms lapack_raises (nuscenes_args\<lparr>multi_camera := False\<rparr>)
               empty_fs)
       = [(INFO, Loading_extrinsics_from ''ext''),
          (INFO, Scanning_extrinsics_directory ''ext''),
          (ERROR, No_extrinsics_files_found ''ext''),
          (ERROR, No_extrinsics_data_loaded)]"
proof -
  let ?a = "nuscenes_args\<lparr>multi_camera := False\<rparr>"
  have h: "\<not> multi_camera ?a" by simp
  have p: "extrinsics_path ?a = ''ext''" by (simp add: nuscenes_args_def)
  have v: "outcome (convert_nuscenes_to_transforms lapack_raises ?a nuscenes_fs)
             = Inl NotImplementedError"
    by code_simp
  have e: "fst (load_extrinsics_from_directory empty_fs (extrinsics_path ?a)) = Inr []"
    by code_simp
  from C7_single_camera[OF h, of lapack_raises nuscenes_fs]
  have n: "final_files (convert_nuscenes_to_transforms lapack_raises ?a nuscenes_fs) = nuscenes_fs"
    and l: "list_all (\<lambda>(l, m). \<not> intrinsics_message m)
              (logged (convert_nuscenes_to_transforms lapack_raises ?a nuscenes_fs))"
    by blast+
  note t = C7_single_camera[OF h, of lapack_raises empty_fs]
  from t have o': "outcome (convert_nuscenes_to_transforms lapack_raises ?a empty_fs) =
           (case fst (load_extrinsics_from_directory empty_fs (extrinsics_path ?a)) of
              Inl e \<Rightarrow> Inl e
            | Inr extrinsics \<Rightarrow> if extrinsics = [] then Inr False else Inl NotImplementedError)"
    by blast
  have o: "outcome (convert_nuscenes_to_transforms lapack_raises ?a empty_fs) = Inr False"
    unfolding o' e by simp
  from t have f: "final_files (convert_nuscenes_to_transforms lapack_raises ?a empty_fs) = empty_fs"
    by blast
  from t e have "logged (convert_nuscenes_to_transforms lapack_raises ?a empty_fs)
       = [(INFO, Loading_extrinsics_from (extrinsics_path ?a)),
          (INFO, Scanning_extrinsics_directory (extrinsics_path ?a)),
          (ERROR, No_extrinsics_files_found (extrinsics_path ?a)),
          (ERROR, No_extrinsics_data_loaded)]"
    by blast
  then have g: "logged (convert_nuscenes_to_transforms lapack_raises ?a empty_fs)
       = [(INFO, Loading_extrinsics_from ''ext''),
          (INFO, Scanning_extrinsics_directory ''ext''),
          (ERROR, No_extrinsics_files_found ''ext''),
          (ERROR, No_extrinsics_data_loaded)]"
    by (simp only: p)
  from h v n l e o f g show ?thesis by blast
qed

text \<open>
  With a directory that holds no \<open>.txt\<close> file the run in single-camera mode returns
  \<open>False\<close>: it does not raise \<open>NotImplementedError\<close>. The two errors are logged.
\<close>

theorem C7_single_camera_counterexample:
  "outcome (convert_nuscenes_to_transforms lapack_raises (nuscenes_args\<lparr>multi_camera := False\<rparr>)
              empty_fs)
     = Inr False
   \<and> outcome (convert_nuscenes_to_transforms lapack_raises (nuscenes_args\<lparr>multi_camera := False\<rparr>)
                empty_fs)
     \<noteq> Inl NotImplementedError
   \<and> logged (convert_nuscenes_to_transforms lapack_raises (nuscenes_args\<lparr>multi_camera := False\<rparr>)
               empty_fs)
       = [(INFO, Loading_extrinsics_from ''ext''),
          (INFO, Scanning_extrinsics_directory ''ext''),
          (ERROR, No_extrinsics_files_found ''ext''),
          (ERROR, No_extrinsics_data_loaded)]"
  by code_simp

subsection \<open>Loading the intrinsics\<close>

lemma load_all_intrinsics_Inr:
  assumes "load_all_intrinsics fs ipath w h cams acc = (Inr all_intrinsics, lg)"
  shows "(c \<in> set cams \<longrightarrow>
            (\<exists>x. fst (load_intrinsics fs ipath c w h) = Inr x \<and> map_of all_intrinsics c = Some x)) \<and>
         (c \<notin> set cams \<longrightarrow> map_of all_intrinsics c = map_of acc c)"
  using assms
proof (induction cams arbitrary: acc lg)
  case Nil
  then show ?case by simp
next
  case (Cons c' rest)
  obtain r0 lg0 where li: "load_intrinsics fs ipath c' w h = (r0, lg0)"
    by (cases "load_intrinsics fs ipath c' w h")
  with Cons.prems obtain x where x: "r0 = Inr x"
    by (cases r0) (auto simp: Let_def)
  obtain r' lg' where rest:
    "load_all_intrinsics fs ipath w h rest (AList.update c' x acc) = (r', lg')"
    by (cases "load_all_intrinsics fs ipath w h rest (AList.update c' x acc)")
  with Cons.prems li x have r': "r' = Inr all_intrinsics" by (simp add: Let_def)
  from Cons.IH[OF rest[unfolded r']] have
    ih: "(c \<in> set rest \<longrightarrow>
            (\<exists>x. fst (load_intrinsics fs ipath c w h) = Inr x \<and> map_of all_intrinsics c = Some x)) \<and>
         (c \<notin> set rest \<longrightarrow> map_of all_intrinsics c = map_of (AList.update c' x acc) c)" .
  show ?case
  proof (cases "c \<in> set rest")
    case True
    with ih show ?thesis by simp
  next
    case False
    with ih have m: "map_of all_intrinsics c = map_of (AList.update c' x acc) c" by simp
    show ?thesis
    proof (cases "c = c'")
      case True
      with m li x show ?thesis by (simp add: update_conv')
    next
      case neq: False
      with m False show ?thesis by (simp add: update_conv')
    qed
  qed
qed


lemma load_intrinsics_missing:
  "\<not> os_path_exists fs (os_path_join ipath (cam @ ''.txt'')) \<Longrightarrow>
     load_intrinsics fs ipath cam w h =
       (Inr None, [(ERROR, Intrinsics_file_not_found (os_path_join ipath (cam @ ''.txt'')))])"
  by (simp add: load_intrinsics_def Let_def)

subsection \<open>The outcome of a multi-camera run\<close>

lemma convert_intrinsics_error:
  assumes "multi_camera a"
    and "fst (load_extrinsics_from_directory fs (extrinsics_path a)) = Inr extrinsics"
    and "extrinsics \<noteq> []"
    and "fst (load_all_intrinsics fs (intrinsics_path a) (arg_width a) (arg_height a)
           (sort (find_camera_ids (map fst extrinsics) [])) []) = Inl e"
  shows "outcome (convert_nuscenes_to_transforms lapack a fs) = Inl e \<and>
         final_files (convert_nuscenes_to_transforms lapack a fs) = fs"
  using assms
  unfolding convert_nuscenes_to_transforms_def outcome_def final_files_def Let_def
  by (auto split: sum.splits prod.splits)

lemma convert_frames_error:
  assumes "multi_camera a"
    and "fst (load_extrinsics_from_directory fs (extrinsics_path a)) = Inr extrinsics"
    and "extrinsics \<noteq> []"
    and "fst (load_all_intrinsics fs (intrinsics_path a) (arg_width a) (arg_height a)
           (sort (find_camera_ids (map fst extrinsics) [])) []) = Inr all_intrinsics"
    and "process_frames lapack a extrinsics (fst (select_camera_front_start a fs extrinsics))
           all_intrinsics (sort (map fst extrinsics)) [] = Inl e"
  shows "outcome (convert_nuscenes_to_transforms lapack a fs) = Inl e \<and>
         final_files (convert_nuscenes_to_transforms lapack a fs) = fs"
  using assms
  unfolding convert_nuscenes_to_transforms_def outcome_def final_files_def Let_def
  by (auto split: sum.splits prod.splits)

text \<open>
  C6: in multi-camera mode, when the intrinsics file of the camera id of some key is
  absent, the loader logs an error and returns \<open>None\<close> for that camera, and the run
  raises and leaves the file system as it was: no document is written.
\<close>

theorem C6_missing_intrinsics_fatal:
  assumes "multi_camera a"
    and "fst (load_extrinsics_from_directory fs (extrinsics_path a)) = Inr extrinsics"
    and "key \<in> set (map fst extrinsics)"
    and "camera_component key = Some cam"
    and "\<not> os_path_exists fs (os_path_join (intrinsics_path a) (cam @ ''.txt''))"
  shows "load_intrinsics fs (intrinsics_path a) cam (arg_width a) (arg_height a) =
           (Inr None,
            [(ERROR, Intrinsics_file_not_found (os_path_join (intrinsics_path a) (cam @ ''.txt'')))]) \<and>
         (\<exists>e. outcome (convert_nuscenes_to_transforms lapack a fs) = Inl e) \<and>
         final_files (convert_nuscenes_to_transforms lapack a fs) = fs"
proof -
  let ?cams = "sort (find_camera_ids (map fst extrinsics) [])"
  have li: "load_intrinsics fs (intrinsics_path a) cam (arg_width a) (arg_height a) =
           (Inr None,
            [(ERROR, Intrinsics_file_not_found (os_path_join (intrinsics_path a) (cam @ ''.txt'')))])"
    by (rule load_intrinsics_missing[OF assms(5)])
  from assms(3) have ne: "extrinsics \<noteq> []" by auto
  from assms(3,4) have cam: "cam \<in> set ?cams"
    by (auto simp: find_camera_ids_set)
  obtain r lgi where la:
    "load_all_intrinsics fs (intrinsics_path a) (arg_width a) (arg_height a) ?cams [] = (r, lgi)"
    by (cases "load_all_intrinsics fs (intrinsics_path a) (arg_width a) (arg_height a) ?cams []")
  have "(\<exists>e. outcome (convert_nuscenes_to_transforms lapack a fs) = Inl e) \<and>
         final_files (convert_nuscenes_to_transforms lapack a fs) = fs"
  proof (cases r)
    case (Inl e)
    with la convert_intrinsics_error[OF assms(1,2) ne, of e] show ?thesis by auto
  next
    case (Inr all_intrinsics)
    from load_all_intrinsics_Inr[OF la[unfolded Inr], of cam] cam li
    have none: "map_of all_intrinsics cam = Some None" by auto
    let ?cfs = "fst (select_camera_front_start a fs extrinsics)"
    have "\<exists>e. process_frame lapack a extrinsics ?cfs all_intrinsics key = Inl e"
    proof (cases "process_frame lapack a extrinsics ?cfs all_intrinsics key")
      case (Inl e)
      then show ?thesis by blast
    next
      case (Inr fr)
      from process_frame_Inr[OF Inr] assms(1,4) none show ?thesis by auto
    qed
    then obtain e0 where e0: "process_frame lapack a extrinsics ?cfs all_intrinsics key = Inl e0" ..
    from assms(3) have "key \<in> set (sort (map fst extrinsics))" by simp
    from process_frames_error[OF this e0, of "[]"] obtain e where
      "process_frames lapack a extrinsics ?cfs all_intrinsics (sort (map fst extrinsics)) [] = Inl e" ..
    from convert_frames_error[OF assms(1,2) ne _ this] la Inr show ?thesis by auto
  qed
  with li show ?thesis by simp
qed

theorem C6_missing_intrinsics_fatal_witness:
  "multi_camera nuscenes_args
   \<and> fst (load_extrinsics_from_directory missing_intrinsics_fs (extrinsics_path nuscenes_args))
       = Inr nuscenes_extrinsics
   \<and> camera_component ''000_1'' = Some ''1''
   \<and> \<not> os_path_exists missing_intrinsics_fs (os_path_join (intrinsics_path nuscenes_args) (''1'' @ ''.txt''))
   \<and> outcome (convert_nuscenes_to_transforms lapack_raises nuscenes_args missing_intrinsics_fs)
       = Inl (TypeError ''NoneType object is not subscriptable'')
   \<and> final_files (convert_nuscenes_to_transforms lapack_raises nuscenes_args missing_intrinsics_fs)
       = missing_intrinsics_fs"
proof -
  have h1: "multi_camera nuscenes_args" by code_simp
  have h2: "fst (load_extrinsics_from_directory missing_intrinsics_fs (extrinsics_path nuscenes_args))
              = Inr nuscenes_extrinsics"
    by code_simp
  have h3: "''000_1'' \<in> set (map fst nuscenes_extrinsics)" by code_simp
  have h4: "camera_component ''000_1'' = Some ''1''" by code_simp
  have h5: "\<not> os_path_exists missing_intrinsics_fs
                (os_path_join (intrinsics_path nuscenes_args) (''1'' @ ''.txt''))"
    by code_simp
  have v: "outcome (convert_nuscenes_to_transforms lapack_raises nuscenes_args missing_intrinsics_fs)
             = Inl (TypeError ''NoneType object is not subscriptable'')"
    by code_simp
  from C6_missing_intrinsics_fatal[OF h1 h2 h3 h4 h5]
  have "final_files (convert_nuscenes_to_transforms lapack_raises nuscenes_args missing_intrinsics_fs)
          = missing_intrinsics_fs"
    by blast
  with h1 h2 h4 h5 v show ?thesis by blast
qed

subsection \<open>A run without a front camera\<close>









end
